theory Spec2Isabelle
  imports Main
begin

section \<open>Data model (types.ts, Abstraction, Metadata)\<close>

text \<open>
  A JavaScript symbol has an identity and a description. \<open>Symbol(name)\<close> allocates a new
  identity on every call, so two symbols with the same description are different keys of
  a \<open>Map\<close>.
\<close>

datatype symbol = Symbol (sym_id: nat) (description: string)

text \<open>\<open>class Abstraction\<close>: its only runtime field is \<open>token\<close>.\<close>

datatype abstraction = Abstraction (token: symbol)

text \<open>\<open>new Abstraction(name)\<close>: \<open>this.token = Symbol(name)\<close>; the first argument is the
  identity the runtime allocates for the new symbol.\<close>

definition new_Abstraction :: "nat \<Rightarrow> string \<Rightarrow> abstraction" where
  "new_Abstraction fresh name = Abstraction (Symbol fresh name)"

text \<open>\<open>Symbol.prototype.toString\<close>.\<close>

definition symbol_toString :: "symbol \<Rightarrow> string" where
  "symbol_toString s = ''Symbol('' @ description s @ '')''"

text \<open>\<open>Abstraction.toString\<close>: \<open>this.token.description || this.token.toString()\<close>; the empty
  string is falsy.\<close>

definition toString :: "abstraction \<Rightarrow> string" where
  "toString a =
     (if description (token a) \<noteq> [] then description (token a)
      else symbol_toString (token a))"

text \<open>A class (\<open>Constructor\<close>) is a function object: it has an identity and a \<open>name\<close>.\<close>

datatype cls = Class (cls_id: nat) (cls_name: string)

text \<open>
  Runtime values. An object made by \<open>new\<close> carries the identity it was allocated with, its
  class and the constructor arguments it received; \<open>===\<close> on objects is equality of
  identities. User classes are taken as free constructors: \<open>new K(args)\<close> allocates and
  nothing else.
\<close>

datatype val =
    Undefined
  | Null
  | JBool bool
  | JNum int
  | JStr string
  | Arr "val list"
  | Obj nat cls "val list"

fun truthy :: "val \<Rightarrow> bool" where
  "truthy Undefined = False"
| "truthy Null = False"
| "truthy (JBool b) = b"
| "truthy (JNum n) = (n \<noteq> 0)"
| "truthy (JStr s) = (s \<noteq> [])"
| "truthy (Arr vs) = True"
| "truthy (Obj i k args) = True"

text \<open>\<open>interface DependencyOptions\<close>; a missing flag is \<open>undefined\<close>, which is falsy.\<close>

record DependencyOptions =
  multiple :: bool
  optional :: bool

definition no_options :: DependencyOptions where
  "no_options = \<lparr>multiple = False, optional = False\<rparr>"

text \<open>What \<open>resolveInternal\<close> is asked for: an \<open>Abstraction\<close> or a class
  (\<open>typeof abstraction === "function"\<close>).\<close>

datatype target = Abstr abstraction | Ctor cls

text \<open>\<open>type Dependency = Abstraction | [Abstraction, DependencyOptions]\<close>.\<close>

datatype Dependency = Bare target | WithOptions target DependencyOptions

text \<open>\<open>Array.isArray(dep) ? dep : [dep, {}]\<close>.\<close>

fun dep_target :: "Dependency \<Rightarrow> target" where
  "dep_target (Bare t) = t"
| "dep_target (WithOptions t opts) = t"

fun dep_options :: "Dependency \<Rightarrow> DependencyOptions" where
  "dep_options (Bare t) = no_options"
| "dep_options (WithOptions t opts) = opts"

datatype LifetimeScope = Transient | Singleton

record Registration =
  implementation :: cls
  dependencies :: "Dependency list"
  scope :: LifetimeScope

record DecoratorRegistration =
  decoratorClass :: cls
  decorator_dependencies :: "Dependency list"

record InstanceRegistration =
  inst_value :: val

text \<open>A factory is a zero-argument producer. The model hands it the next free object
  identity, so that it can return a fresh object, and advances the counter after the call.\<close>

type_synonym factory = "nat \<Rightarrow> val"

text \<open>The fields of \<open>class Container\<close>. \<open>parent\<close> is the address of the parent container.\<close>

record Container =
  registrations :: "symbol \<rightharpoonup> Registration list"
  decorators :: "symbol \<rightharpoonup> DecoratorRegistration list"
  instances :: "string \<rightharpoonup> val"
  factories :: "symbol \<rightharpoonup> factory list"
  instanceRegistrations :: "symbol \<rightharpoonup> InstanceRegistration list"
  composites :: "symbol \<rightharpoonup> Registration"
  parent :: "nat option"

definition new_Container :: Container where
  "new_Container =
     \<lparr>registrations = Map.empty, decorators = Map.empty, instances = Map.empty,
      factories = Map.empty, instanceRegistrations = Map.empty, composites = Map.empty,
      parent = None\<rparr>"

text \<open>The metadata that \<open>Reflect.defineMetadata\<close> attaches to a class (Metadata.ts, KEYS).\<close>

record Meta =
  md_abstraction :: "abstraction option"
  md_dependencies :: "Dependency list option"
  md_is_decorator :: bool
  md_is_composite :: bool

definition no_meta :: Meta where
  "no_meta = \<lparr>md_abstraction = None, md_dependencies = None,
               md_is_decorator = False, md_is_composite = False\<rparr>"

text \<open>
  The program state: the containers by address, the reflect-metadata side table, and the
  allocation counters for objects and containers.
\<close>

record state =
  heap :: "nat \<Rightarrow> Container"
  metadata :: "cls \<Rightarrow> Meta"
  next_oid :: nat
  next_cid :: nat

definition init_state :: state where
  "init_state = \<lparr>heap = (\<lambda>c. new_Container), metadata = (\<lambda>k. no_meta),
                  next_oid = 0, next_cid = 0\<rparr>"

datatype error =
    CircularDependency string
  | NoRegistrationFound string
  | NoDependencyMetadata string
  | IsComposite string
  | IsDecorator string
  | NotDecorator string
  | NotComposite string
  | NoAbstractionMetadata string

text \<open>
  The outcome of a call: it returns a value, or throws, both in the state reached by then,
  or the recursion budget of the model is used up (the call has not returned yet).
\<close>

datatype 'a result = Return 'a state | Throw error state | OutOfFuel

fun bind :: "'a result \<Rightarrow> ('a \<Rightarrow> state \<Rightarrow> 'b result) \<Rightarrow> 'b result" where
  "bind (Return x st) f = f x st"
| "bind (Throw e st) f = Throw e st"
| "bind OutOfFuel f = OutOfFuel"

text \<open>\<open>xs.map(f)\<close> and \<open>for (const x of xs) results.push(f(x))\<close>, for an \<open>f\<close> with effects.\<close>

fun mapM :: "('a \<Rightarrow> state \<Rightarrow> 'b result) \<Rightarrow> 'a list \<Rightarrow> state \<Rightarrow> 'b list result" where
  "mapM f [] st = Return [] st"
| "mapM f (x # xs) st =
     bind (f x st) (\<lambda>y st1. bind (mapM f xs st1) (\<lambda>ys st2. Return (y # ys) st2))"

text \<open>The same loop when \<open>f\<close> also updates the resolution stack it is handed.\<close>

fun mapM_stack ::
  "('a \<Rightarrow> 's \<Rightarrow> state \<Rightarrow> ('b \<times> 's) result) \<Rightarrow> 'a list \<Rightarrow> 's \<Rightarrow> state \<Rightarrow> ('b list \<times> 's) result"
where
  "mapM_stack f [] stk st = Return ([], stk) st"
| "mapM_stack f (x # xs) stk st =
     bind (f x stk st) (\<lambda>r st1.
       bind (mapM_stack f xs (snd r) st1) (\<lambda>rs st2. Return (fst r # fst rs, snd rs) st2))"

text \<open>\<open>let result = instance; for (const d of ds) result = f(d, result)\<close>.\<close>

fun foldM :: "('a \<Rightarrow> 'b \<Rightarrow> state \<Rightarrow> 'b result) \<Rightarrow> 'a list \<Rightarrow> 'b \<Rightarrow> state \<Rightarrow> 'b result" where
  "foldM f [] r st = Return r st"
| "foldM f (x # xs) r st = bind (f x r st) (\<lambda>r1 st1. foldM f xs r1 st1)"

text \<open>\<open>map.get(key) || []\<close>.\<close>

definition get_or_empty :: "('k \<rightharpoonup> 'v list) \<Rightarrow> 'k \<Rightarrow> 'v list" where
  "get_or_empty m k = (case m k of None \<Rightarrow> [] | Some xs \<Rightarrow> xs)"

text \<open>\<open>new K(...args)\<close>.\<close>

definition new_object :: "cls \<Rightarrow> val list \<Rightarrow> state \<Rightarrow> val result" where
  "new_object k args st =
     Return (Obj (next_oid st) k args) (st\<lparr>next_oid := Suc (next_oid st)\<rparr>)"

text \<open>\<open>factory()\<close>.\<close>

definition call_factory :: "factory \<Rightarrow> state \<Rightarrow> val result" where
  "call_factory f st = Return (f (next_oid st)) (st\<lparr>next_oid := Suc (next_oid st)\<rparr>)"

text \<open>A write to a field of the container at address \<open>c\<close>;
  \<open>this.instances.set(key, v)\<close> is the only one the resolution methods make.\<close>

definition update_container :: "nat \<Rightarrow> (Container \<Rightarrow> Container) \<Rightarrow> state \<Rightarrow> state" where
  "update_container c f st = st\<lparr>heap := (heap st)(c := f (heap st c))\<rparr>"

definition instances_set :: "nat \<Rightarrow> string \<Rightarrow> val \<Rightarrow> state \<Rightarrow> state" where
  "instances_set c key v st =
     update_container c (\<lambda>k. k\<lparr>instances := (instances k)(key \<mapsto> v)\<rparr>) st"

text \<open>The resolution stack, \<open>Map<symbol, boolean>\<close>: only \<open>true\<close> is ever stored, so it is the
  set of its keys.\<close>

type_synonym stack = "symbol set"

text \<open>The cache key of \<open>resolveRegistration\<close>:
  \<^verbatim>\<open>`${abstraction.token.toString()}::${registration.implementation.name}`\<close>.\<close>

definition instanceKey :: "abstraction \<Rightarrow> Registration \<Rightarrow> string" where
  "instanceKey a registration =
     symbol_toString (token a) @ ''::'' @ cls_name (implementation registration)"

text \<open>
  The callback shared by the four \<open>dependencies.map(dep => ...)\<close> sites: each dependency is
  resolved on a copy of the stack (\<open>new Map(resolutionStack)\<close>), so the caller's stack is
  not changed.
\<close>

definition resolveDependencies ::
  "(target \<Rightarrow> stack \<Rightarrow> DependencyOptions \<Rightarrow> state \<Rightarrow> (val \<times> stack) result)
   \<Rightarrow> Dependency list \<Rightarrow> stack \<Rightarrow> state \<Rightarrow> val list result"
where
  "resolveDependencies resolveInternal' deps stk st =
     mapM (\<lambda>dep st1.
        bind (resolveInternal' (dep_target dep) stk (dep_options dep) st1)
          (\<lambda>r st2. Return (fst r) st2)) deps st"

text \<open>The body of the loop of \<open>applyDecorators\<close>:
  \<open>result = new decorator.decoratorClass(...decoratorDeps, result)\<close>.\<close>

definition decorate ::
  "(target \<Rightarrow> stack \<Rightarrow> DependencyOptions \<Rightarrow> state \<Rightarrow> (val \<times> stack) result)
   \<Rightarrow> stack \<Rightarrow> DecoratorRegistration \<Rightarrow> val \<Rightarrow> state \<Rightarrow> val result"
where
  "decorate resolveInternal' stk decorator result st =
     bind (resolveDependencies resolveInternal' (decorator_dependencies decorator) stk st)
       (\<lambda>decoratorDeps st1. new_object (decoratorClass decorator) (decoratorDeps @ [result]) st1)"

section \<open>The resolution engine (class Container)\<close>

text \<open>
  The six resolution methods call each other and need not return (a class that depends on
  itself through dependency-only classes or through a \<open>multiple\<close> edge recurses forever),
  so each takes a budget that every call decreases; \<open>OutOfFuel\<close> says that the budget was
  too small. The container \<open>this\<close> is the address \<open>c\<close>.
\<close>

function (sequential) resolveInternal ::
      "nat \<Rightarrow> nat \<Rightarrow> target \<Rightarrow> stack \<Rightarrow> DependencyOptions \<Rightarrow> state \<Rightarrow> (val \<times> stack) result"
  and tryResolveFromCurrentContainer ::
      "nat \<Rightarrow> nat \<Rightarrow> abstraction \<Rightarrow> stack \<Rightarrow> DependencyOptions \<Rightarrow> state \<Rightarrow> (val \<times> stack) result"
  and resolveRegistration ::
      "nat \<Rightarrow> nat \<Rightarrow> abstraction \<Rightarrow> Registration \<Rightarrow> stack \<Rightarrow> state \<Rightarrow> (val \<times> stack) result"
  and resolveMultiple ::
      "nat \<Rightarrow> nat \<Rightarrow> abstraction \<Rightarrow> stack \<Rightarrow> state \<Rightarrow> (val list \<times> stack) result"
  and applyDecorators ::
      "nat \<Rightarrow> nat \<Rightarrow> abstraction \<Rightarrow> val \<Rightarrow> stack \<Rightarrow> state \<Rightarrow> val result"
  and resolveDependencyOnly ::
      "nat \<Rightarrow> nat \<Rightarrow> cls \<Rightarrow> stack \<Rightarrow> state \<Rightarrow> val result"
where
  "resolveInternal 0 c t stk opts st = OutOfFuel"
| "resolveInternal (Suc n) c (Ctor k) stk opts st =
     bind (resolveDependencyOnly n c k stk st) (\<lambda>v st1. Return (v, stk) st1)"
| "resolveInternal (Suc n) c (Abstr a) stk opts st =
     (if token a \<in> stk \<and> \<not> multiple opts then Throw (CircularDependency (toString a)) st
      else
        bind (tryResolveFromCurrentContainer n c a stk opts st) (\<lambda>r st1.
          if fst r \<noteq> Undefined then Return r st1
          else
            (case parent (heap st1 c) of
               Some p \<Rightarrow> resolveInternal n p (Abstr a) (snd r) opts st1
             | None \<Rightarrow>
                 if optional opts then Return (Undefined, snd r) st1
                 else Throw (NoRegistrationFound (toString a)) st1)))"
| "tryResolveFromCurrentContainer 0 c a stk opts st = OutOfFuel"
| "tryResolveFromCurrentContainer (Suc n) c a stk opts st =
     (let registrations' = get_or_empty (registrations (heap st c)) (token a);
          instanceRegs = get_or_empty (instanceRegistrations (heap st c)) (token a)
      in
        if multiple opts then
          bind (resolveMultiple n c a stk st) (\<lambda>r st1. Return (Arr (fst r), snd r) st1)
        else
          (case composites (heap st c) (token a) of
             Some composite \<Rightarrow>
               bind (resolveDependencies (resolveInternal n c) (dependencies composite)
                       (insert (token a) stk) st)
                 (\<lambda>resolvedDeps st1.
                    bind (new_object (implementation composite) resolvedDeps st1)
                      (\<lambda>instance' st2.
                         Return (instance', insert (token a) stk - {token a}) st2))
           | None \<Rightarrow>
               if instanceRegs \<noteq> [] then
                 bind (applyDecorators n c a (inst_value (last instanceRegs)) stk st)
                   (\<lambda>v st1. Return (v, stk) st1)
               else if registrations' \<noteq> [] then
                 resolveRegistration n c a (last registrations') stk st
               else
                 (case factories (heap st c) (token a) of
                    None \<Rightarrow> Return (Undefined, stk) st
                  | Some factories' \<Rightarrow>
                      if factories' \<noteq> [] then
                        bind (call_factory (last factories') st) (\<lambda>instance' st1.
                          bind (applyDecorators n c a instance' stk st1)
                            (\<lambda>v st2. Return (v, stk) st2))
                      else Return (Undefined, stk) st)))"
| "resolveRegistration 0 c a registration stk st = OutOfFuel"
| "resolveRegistration (Suc n) c a registration stk st =
     (case (if scope registration = Singleton
            then (case instances (heap st c) (instanceKey a registration) of
                    Some existing \<Rightarrow> if truthy existing then Some existing else None
                  | None \<Rightarrow> None)
            else None) of
        Some existing \<Rightarrow> Return (existing, stk) st
      | None \<Rightarrow>
          bind (resolveDependencies (resolveInternal n c) (dependencies registration)
                  (insert (token a) stk) st)
            (\<lambda>resolvedDeps st1.
               bind (new_object (implementation registration) resolvedDeps st1)
                 (\<lambda>instance' st2.
                    bind (applyDecorators n c a instance' (insert (token a) stk) st2)
                      (\<lambda>decoratedInstance st3.
                         Return (decoratedInstance, insert (token a) stk - {token a})
                           (if scope registration = Singleton
                            then instances_set c (instanceKey a registration)
                                   decoratedInstance st3
                            else st3)))))"
| "resolveMultiple 0 c a stk st = OutOfFuel"
| "resolveMultiple (Suc n) c a stk st =
     bind (case parent (heap st c) of
             Some p \<Rightarrow> resolveMultiple n p a stk st
           | None \<Rightarrow> Return ([], stk) st)
       (\<lambda>fromParent st1.
          let registrations' = get_or_empty (registrations (heap st1 c)) (token a);
              instanceRegs = get_or_empty (instanceRegistrations (heap st1 c)) (token a);
              factories' = get_or_empty (factories (heap st1 c)) (token a)
          in
            bind (mapM_stack
                    (\<lambda>instanceReg stk1 st2.
                       bind (applyDecorators n c a (inst_value instanceReg) stk1 st2)
                         (\<lambda>decorated st3. Return (decorated, stk1) st3))
                    instanceRegs (snd fromParent) st1)
              (\<lambda>fromInstances st2.
                 bind (mapM_stack (\<lambda>registration stk1 st3.
                         resolveRegistration n c a registration stk1 st3)
                         registrations' (snd fromInstances) st2)
                   (\<lambda>fromRegistrations st3.
                      bind (mapM_stack
                              (\<lambda>factory' stk1 st4.
                                 bind (call_factory factory' st4) (\<lambda>instance' st5.
                                   bind (applyDecorators n c a instance' stk1 st5)
                                     (\<lambda>decorated st6. Return (decorated, stk1) st6)))
                              factories' (snd fromRegistrations) st3)
                        (\<lambda>fromFactories st4.
                           Return (fst fromParent @ fst fromInstances
                                     @ fst fromRegistrations @ fst fromFactories,
                                   snd fromFactories) st4))))"
| "applyDecorators 0 c a instance' stk st = OutOfFuel"
| "applyDecorators (Suc n) c a instance' stk st =
     foldM (decorate (resolveInternal n c) stk)
       (get_or_empty (decorators (heap st c)) (token a)) instance' st"
| "resolveDependencyOnly 0 c k stk st = OutOfFuel"
| "resolveDependencyOnly (Suc n) c k stk st =
     (case md_dependencies (metadata st k) of
        None \<Rightarrow> Throw (NoDependencyMetadata (cls_name k)) st
      | Some deps \<Rightarrow>
          bind (resolveDependencies (resolveInternal n c) deps stk st)
            (\<lambda>resolvedDeps st1. new_object k resolvedDeps st1))"

  by pat_completeness auto

termination
  by (relation "measure (\<lambda>x. case x of
          Inl (Inl (n, _)) \<Rightarrow> n
        | Inl (Inr (Inl (n, _))) \<Rightarrow> n
        | Inl (Inr (Inr (n, _))) \<Rightarrow> n
        | Inr (Inl (n, _)) \<Rightarrow> n
        | Inr (Inr (Inl (n, _))) \<Rightarrow> n
        | Inr (Inr (Inr (n, _))) \<Rightarrow> n)") auto

subsection \<open>Public resolution API\<close>

text \<open>\<open>resolve\<close>: \<open>this.resolveInternal(abstraction, new Map(), {})\<close>.\<close>

definition resolve :: "nat \<Rightarrow> nat \<Rightarrow> abstraction \<Rightarrow> state \<Rightarrow> val result" where
  "resolve n c a st =
     bind (resolveInternal n c (Abstr a) {} no_options st) (\<lambda>r st1. Return (fst r) st1)"

text \<open>\<open>resolveAll\<close>: \<open>this.resolveMultiple(abstraction, new Map())\<close>.\<close>

definition resolveAll :: "nat \<Rightarrow> nat \<Rightarrow> abstraction \<Rightarrow> state \<Rightarrow> val list result" where
  "resolveAll n c a st =
     bind (resolveMultiple n c a {} st) (\<lambda>r st1. Return (fst r) st1)"

definition resolveWithDependencies ::
  "nat \<Rightarrow> nat \<Rightarrow> cls \<Rightarrow> Dependency list \<Rightarrow> state \<Rightarrow> val result" where
  "resolveWithDependencies n c implementation' deps st =
     bind (resolveDependencies (resolveInternal n c) deps {} st)
       (\<lambda>resolvedDeps st1. new_object implementation' resolvedDeps st1)"

section \<open>Metadata helpers and the registration API\<close>

definition update_metadata :: "cls \<Rightarrow> (Meta \<Rightarrow> Meta) \<Rightarrow> state \<Rightarrow> state" where
  "update_metadata k f st = st\<lparr>metadata := (metadata st)(k := f (metadata st k))\<rparr>"

text \<open>\<open>createImplementation\<close> and \<open>Abstraction.createImplementation\<close>.\<close>

definition createImplementation :: "abstraction \<Rightarrow> cls \<Rightarrow> Dependency list \<Rightarrow> state \<Rightarrow> state" where
  "createImplementation a k deps st =
     update_metadata k (\<lambda>m. m\<lparr>md_abstraction := Some a, md_dependencies := Some deps\<rparr>) st"

text \<open>\<open>createDecorator\<close> and \<open>Abstraction.createDecorator\<close>.\<close>

definition createDecorator :: "abstraction \<Rightarrow> cls \<Rightarrow> Dependency list \<Rightarrow> state \<Rightarrow> state" where
  "createDecorator a k deps st =
     update_metadata k (\<lambda>m. m\<lparr>md_abstraction := Some a, md_dependencies := Some deps,
                               md_is_decorator := True\<rparr>) st"

text \<open>\<open>createComposite\<close> and \<open>Abstraction.createComposite\<close>.\<close>

definition createComposite :: "abstraction \<Rightarrow> cls \<Rightarrow> Dependency list \<Rightarrow> state \<Rightarrow> state" where
  "createComposite a k deps st =
     update_metadata k (\<lambda>m. m\<lparr>md_abstraction := Some a, md_dependencies := Some deps,
                               md_is_composite := True\<rparr>) st"

text \<open>\<open>createDependency\<close>: only the dependency list is read back by the container.\<close>

definition createDependency :: "cls \<Rightarrow> Dependency list \<Rightarrow> state \<Rightarrow> state" where
  "createDependency k deps st = update_metadata k (\<lambda>m. m\<lparr>md_dependencies := Some deps\<rparr>) st"

definition isDecorator :: "state \<Rightarrow> cls \<Rightarrow> bool" where
  "isDecorator st k = md_is_decorator (metadata st k)"

definition isComposite :: "state \<Rightarrow> cls \<Rightarrow> bool" where
  "isComposite st k = md_is_composite (metadata st k)"

text \<open>\<open>dependencies || []\<close>.\<close>

definition dependencies_or_empty :: "Dependency list option \<Rightarrow> Dependency list" where
  "dependencies_or_empty d = (case d of None \<Rightarrow> [] | Some ds \<Rightarrow> ds)"

text \<open>\<open>new Container()\<close>.\<close>

definition create_Container :: "state \<Rightarrow> nat result" where
  "create_Container st =
     Return (next_cid st)
       (st\<lparr>heap := (heap st)(next_cid st := new_Container), next_cid := Suc (next_cid st)\<rparr>)"

definition createChildContainer :: "nat \<Rightarrow> state \<Rightarrow> nat result" where
  "createChildContainer c st =
     Return (next_cid st)
       (st\<lparr>heap := (heap st)(next_cid st := new_Container\<lparr>parent := Some c\<rparr>),
           next_cid := Suc (next_cid st)\<rparr>)"

text \<open>
  \<open>RegistrationBuilder\<close> holds a reference to the registration object that \<open>register\<close>
  has just appended: here the container, the token and the position in the list.
\<close>

record RegistrationBuilder =
  builder_container :: nat
  builder_token :: symbol
  builder_index :: nat

definition register :: "nat \<Rightarrow> cls \<Rightarrow> state \<Rightarrow> RegistrationBuilder result" where
  "register c implementation' st =
     (if isComposite st implementation' then Throw (IsComposite (cls_name implementation')) st
      else if isDecorator st implementation' then
        Throw (IsDecorator (cls_name implementation')) st
      else
        (case md_abstraction (metadata st implementation') of
           None \<Rightarrow> Throw (NoAbstractionMetadata (cls_name implementation')) st
         | Some abstraction' \<Rightarrow>
             let registration =
                   \<lparr>implementation = implementation',
                    dependencies =
                      dependencies_or_empty (md_dependencies (metadata st implementation')),
                    scope = Transient\<rparr>;
                 existing = get_or_empty (registrations (heap st c)) (token abstraction')
             in Return \<lparr>builder_container = c, builder_token = token abstraction',
                        builder_index = length existing\<rparr>
                  (update_container c
                     (\<lambda>k. k\<lparr>registrations :=
                            (registrations k)(token abstraction' \<mapsto> existing @ [registration])\<rparr>)
                     st)))"

definition inSingletonScope :: "RegistrationBuilder \<Rightarrow> state \<Rightarrow> state" where
  "inSingletonScope b st =
     update_container (builder_container b)
       (\<lambda>k. k\<lparr>registrations :=
              (registrations k)(builder_token b \<mapsto>
                 (let rs = get_or_empty (registrations k) (builder_token b)
                  in rs[builder_index b := (rs ! builder_index b)\<lparr>scope := Singleton\<rparr>]))\<rparr>)
       st"

definition registerInstance :: "nat \<Rightarrow> abstraction \<Rightarrow> val \<Rightarrow> state \<Rightarrow> state" where
  "registerInstance c a v st =
     update_container c
       (\<lambda>k. k\<lparr>instanceRegistrations :=
              (instanceRegistrations k)(token a \<mapsto>
                 get_or_empty (instanceRegistrations k) (token a) @ [\<lparr>inst_value = v\<rparr>])\<rparr>)
       st"

definition registerFactory :: "nat \<Rightarrow> abstraction \<Rightarrow> factory \<Rightarrow> state \<Rightarrow> state" where
  "registerFactory c a f st =
     update_container c
       (\<lambda>k. k\<lparr>factories := (factories k)(token a \<mapsto> get_or_empty (factories k) (token a) @ [f])\<rparr>)
       st"

definition registerDecorator :: "nat \<Rightarrow> cls \<Rightarrow> state \<Rightarrow> unit result" where
  "registerDecorator c decorator st =
     (if \<not> isDecorator st decorator then Throw (NotDecorator (cls_name decorator)) st
      else
        (case md_abstraction (metadata st decorator) of
           None \<Rightarrow> Throw (NoAbstractionMetadata (cls_name decorator)) st
         | Some abstraction' \<Rightarrow>
             let registration =
                   \<lparr>decoratorClass = decorator,
                    decorator_dependencies =
                      dependencies_or_empty (md_dependencies (metadata st decorator))\<rparr>
             in Return ()
                  (update_container c
                     (\<lambda>k. k\<lparr>decorators :=
                            (decorators k)(token abstraction' \<mapsto>
                               get_or_empty (decorators k) (token abstraction')
                                 @ [registration])\<rparr>)
                     st)))"

definition registerComposite :: "nat \<Rightarrow> cls \<Rightarrow> state \<Rightarrow> unit result" where
  "registerComposite c implementation' st =
     (if \<not> isComposite st implementation' then
        Throw (NotComposite (cls_name implementation')) st
      else
        (case md_abstraction (metadata st implementation') of
           None \<Rightarrow> Throw (NoAbstractionMetadata (cls_name implementation')) st
         | Some abstraction' \<Rightarrow>
             let registration =
                   \<lparr>implementation = implementation',
                    dependencies =
                      dependencies_or_empty (md_dependencies (metadata st implementation')),
                    scope = Transient\<rparr>
             in Return ()
                  (update_container c
                     (\<lambda>k. k\<lparr>composites := (composites k)(token abstraction' \<mapsto> registration)\<rparr>)
                     st)))"

section \<open>The ancestor chain\<close>

text \<open>\<open>ancestor_chain st c ps\<close>: following \<open>parent\<close> from container \<open>c\<close> visits exactly the
  containers \<open>ps\<close>, nearest first, and ends at a root.\<close>

fun ancestor_chain :: "state \<Rightarrow> nat \<Rightarrow> nat list \<Rightarrow> bool" where
  "ancestor_chain st c [] = (parent (heap st c) = None)"
| "ancestor_chain st c (p # ps) = (parent (heap st c) = Some p \<and> ancestor_chain st p ps)"

text \<open>\<open>descends st d between c\<close>: following \<open>parent\<close> from container \<open>d\<close> reaches container
  \<open>c\<close>, and \<open>between\<close> lists the containers visited before \<open>c\<close>, starting with \<open>d\<close>
  itself (\<open>between\<close> is empty when \<open>d\<close> is \<open>c\<close>).\<close>

fun descends :: "state \<Rightarrow> nat \<Rightarrow> nat list \<Rightarrow> nat \<Rightarrow> bool" where
  "descends st d [] c = (d = c)"
| "descends st d (k # ks) c =
     (d = k \<and> (case parent (heap st k) of None \<Rightarrow> False | Some p \<Rightarrow> descends st p ks c))"

text \<open>A container without a record that a single resolution of the contract could use.\<close>

definition unregistered :: "Container \<Rightarrow> abstraction \<Rightarrow> bool" where
  "unregistered k a =
     (composites k (token a) = None \<and>
      get_or_empty (instanceRegistrations k) (token a) = [] \<and>
      get_or_empty (registrations k) (token a) = [] \<and>
      get_or_empty (factories k) (token a) = [])"

text \<open>The number of instance, provider and factory records of a container for a
  contract.\<close>

definition record_count :: "Container \<Rightarrow> abstraction \<Rightarrow> nat" where
  "record_count k a =
     length (get_or_empty (instanceRegistrations k) (token a))
     + length (get_or_empty (registrations k) (token a))
     + length (get_or_empty (factories k) (token a))"

section \<open>The collection in the words of the specification\<close>

text \<open>
  A second description of multiple-collection, for contracts whose provider and decorator
  records declare no dependencies, written after sections 4.5 to 4.7 of the specification
  and not after the code: a total function on the state, without a budget, to compare
  \<open>resolveMultiple\<close> with. The cache key is the one the code computes.

  \<open>spec_decorate\<close> (4.6): fold left to right over the decorators, each constructed with the
  running result as its argument.
\<close>

fun spec_decorate :: "DecoratorRegistration list \<Rightarrow> val \<Rightarrow> state \<Rightarrow> val \<times> state" where
  "spec_decorate [] v st = (v, st)"
| "spec_decorate (d # ds) v st =
     spec_decorate ds (Obj (next_oid st) (decoratorClass d) [v])
       (st\<lparr>next_oid := Suc (next_oid st)\<rparr>)"

text \<open>An instance record contributes its value, decorated.\<close>

definition spec_instance :: "DecoratorRegistration list \<Rightarrow> InstanceRegistration \<Rightarrow> state \<Rightarrow> val \<times> state" where
  "spec_instance ds i st = spec_decorate ds (inst_value i) st"

text \<open>\<open>spec_provider\<close> (4.7): a Singleton-scoped provider with a cached entry in this
  container yields the entry; otherwise the provider is constructed, decorated, and, if
  Singleton-scoped, the decorated result is stored under the cache key.\<close>

definition spec_construct ::
  "nat \<Rightarrow> abstraction \<Rightarrow> DecoratorRegistration list \<Rightarrow> Registration \<Rightarrow> state \<Rightarrow> val \<times> state" where
  "spec_construct c a ds r st =
     (case spec_decorate ds (Obj (next_oid st) (implementation r) [])
             (st\<lparr>next_oid := Suc (next_oid st)\<rparr>) of
        (v, st1) \<Rightarrow>
          (v, if scope r = Singleton then instances_set c (instanceKey a r) v st1 else st1))"

definition spec_provider ::
  "nat \<Rightarrow> abstraction \<Rightarrow> DecoratorRegistration list \<Rightarrow> Registration \<Rightarrow> state \<Rightarrow> val \<times> state" where
  "spec_provider c a ds r st =
     (if scope r = Singleton then
        (case instances (heap st c) (instanceKey a r) of
           Some cached \<Rightarrow> if truthy cached then (cached, st) else spec_construct c a ds r st
         | None \<Rightarrow> spec_construct c a ds r st)
      else spec_construct c a ds r st)"

text \<open>A factory record contributes what the factory produces, decorated.\<close>

definition spec_factory :: "DecoratorRegistration list \<Rightarrow> factory \<Rightarrow> state \<Rightarrow> val \<times> state" where
  "spec_factory ds f st =
     spec_decorate ds (f (next_oid st)) (st\<lparr>next_oid := Suc (next_oid st)\<rparr>)"

text \<open>One record after the other, in registration order.\<close>

fun spec_each :: "('a \<Rightarrow> state \<Rightarrow> val \<times> state) \<Rightarrow> 'a list \<Rightarrow> state \<Rightarrow> val list \<times> state" where
  "spec_each f [] st = ([], st)"
| "spec_each f (x # xs) st =
     (case f x st of (v, st1) \<Rightarrow>
        (case spec_each f xs st1 of (vs, st2) \<Rightarrow> (v # vs, st2)))"

text \<open>\<open>spec_local\<close> (4.5): in this container, all instance records, then all provider
  records, then all factory records.\<close>

definition spec_local :: "abstraction \<Rightarrow> nat \<Rightarrow> state \<Rightarrow> val list \<times> state" where
  "spec_local a c st =
     (let ds = get_or_empty (decorators (heap st c)) (token a) in
      case spec_each (spec_instance ds)
             (get_or_empty (instanceRegistrations (heap st c)) (token a)) st of
        (fromInstances, st1) \<Rightarrow>
      case spec_each (spec_provider c a ds)
             (get_or_empty (registrations (heap st c)) (token a)) st1 of
        (fromRegistrations, st2) \<Rightarrow>
      case spec_each (spec_factory ds) (get_or_empty (factories (heap st c)) (token a)) st2 of
        (fromFactories, st3) \<Rightarrow>
          (fromInstances @ fromRegistrations @ fromFactories, st3))"

text \<open>\<open>spec_collect\<close> (4.5): the parent's full result first, then the local records. The
  containers are given nearest first, as \<open>ancestor_chain\<close> lists them.\<close>

fun spec_collect :: "abstraction \<Rightarrow> nat list \<Rightarrow> state \<Rightarrow> val list \<times> state" where
  "spec_collect a [] st = ([], st)"
| "spec_collect a (c # ps) st =
     (case spec_collect a ps st of (fromParent, st1) \<Rightarrow>
        (case spec_local a c st1 of (local, st2) \<Rightarrow> (fromParent @ local, st2)))"

text \<open>The provider and decorator records of a container for a contract declare no
  dependencies.\<close>

definition without_dependencies :: "Container \<Rightarrow> abstraction \<Rightarrow> bool" where
  "without_dependencies k a =
     (list_all (\<lambda>r. dependencies r = []) (get_or_empty (registrations k) (token a)) \<and>
      list_all (\<lambda>d. decorator_dependencies d = []) (get_or_empty (decorators k) (token a)))"

section \<open>Example programs\<close>

text \<open>What a call returned, and the state after a statement of an example program (a
  statement that throws leaves the state as it is).\<close>

fun returned :: "'a result \<Rightarrow> 'a option" where
  "returned (Return x st) = Some x"
| "returned (Throw e st) = None"
| "returned OutOfFuel = None"

fun state_of :: "'a result \<Rightarrow> state" where
  "state_of (Return x st) = st"
| "state_of (Throw e st) = st"
| "state_of OutOfFuel = init_state"

text \<open>\<open>c.register(k)\<close> and \<open>c.register(k).inSingletonScope()\<close>.\<close>

definition register_transient :: "nat \<Rightarrow> cls \<Rightarrow> state \<Rightarrow> state" where
  "register_transient c k st = state_of (register c k st)"

definition register_singleton :: "nat \<Rightarrow> cls \<Rightarrow> state \<Rightarrow> state" where
  "register_singleton c k st =
     state_of (bind (register c k st) (\<lambda>b st1. Return () (inSingletonScope b st1)))"

definition Logger :: abstraction where
  "Logger = new_Abstraction 0 ''Logger''"

definition OtherLogger :: abstraction where
  "OtherLogger = new_Abstraction 1 ''Logger''"

definition ConsoleLogger :: cls where
  "ConsoleLogger = Class 0 ''ConsoleLogger''"

definition FileLogger :: cls where
  "FileLogger = Class 1 ''FileLogger''"

definition CompositeLogger :: cls where
  "CompositeLogger = Class 2 ''CompositeLogger''"

definition LoggerDecorator :: cls where
  "LoggerDecorator = Class 3 ''LoggerDecorator''"

definition OtherConsoleLogger :: cls where
  "OtherConsoleLogger = Class 4 ''ConsoleLogger''"

definition multiple_true :: DependencyOptions where
  "multiple_true = \<lparr>multiple = True, optional = False\<rparr>"

text \<open>
  \<^verbatim>\<open>
  createImplementation({abstraction: Logger, implementation: ConsoleLogger,
                        dependencies: [Logger]});
  const root = new Container();           // address 0
  root.register(ConsoleLogger);
  \<close>
\<close>

definition cyclic_world :: state where
  "cyclic_world =
     register_transient 0 ConsoleLogger
       (state_of (create_Container
          (createImplementation Logger ConsoleLogger [Bare (Abstr Logger)] init_state)))"

text \<open>
  \<^verbatim>\<open>
  createImplementation({abstraction: Logger, implementation: ConsoleLogger, dependencies: []});
  createImplementation({abstraction: Logger, implementation: FileLogger, dependencies: []});
  createComposite({abstraction: Logger, implementation: CompositeLogger,
                   dependencies: [[Logger, {multiple: true}]]});
  createDecorator({abstraction: Logger, decorator: LoggerDecorator, dependencies: []});
  const root = new Container();           // address 0
  root.register(ConsoleLogger);
  root.register(FileLogger);
  root.registerComposite(CompositeLogger);
  root.registerDecorator(LoggerDecorator);
  \<close>
\<close>

definition composite_world :: state where
  "composite_world =
     state_of (registerDecorator 0 LoggerDecorator
       (state_of (registerComposite 0 CompositeLogger
          (register_transient 0 FileLogger
             (register_transient 0 ConsoleLogger
                (state_of (create_Container
                   (createDecorator Logger LoggerDecorator []
                      (createComposite Logger CompositeLogger
                         [WithOptions (Abstr Logger) multiple_true]
                         (createImplementation Logger FileLogger []
                            (createImplementation Logger ConsoleLogger []
                               init_state)))))))))))"

text \<open>
  \<^verbatim>\<open>
  createImplementation({abstraction: Logger, implementation: ConsoleLogger, dependencies: []});
  const root = new Container();           // address 0
  root.register(ConsoleLogger);
  const child = root.createChildContainer();   // address 1
  child.registerInstance(Logger, undefined);
  child.registerFactory(OtherLogger, () => undefined);
  \<close>
\<close>

definition undefined_world :: state where
  "undefined_world =
     registerFactory 1 OtherLogger (\<lambda>n. Undefined)
       (registerInstance 1 Logger Undefined
          (state_of (createChildContainer 0
             (register_transient 0 ConsoleLogger
                (state_of (create_Container
                   (createImplementation Logger ConsoleLogger [] init_state)))))))"

text \<open>
  \<^verbatim>\<open>
  createImplementation({abstraction: Logger, implementation: ConsoleLogger, dependencies: []});
  createComposite({abstraction: Logger, implementation: CompositeLogger, dependencies: []});
  const root = new Container();                // address 0
  root.registerInstance(OtherLogger, "root");
  const child = root.createChildContainer();   // address 1
  child.registerFactory(Logger, () => new FileLogger());      // factory_world
  child.register(ConsoleLogger);                              // provider_world
  child.registerInstance(Logger, "instance");                 // instance_world
  child.registerComposite(CompositeLogger);                   // precedence_world
  \<close>
\<close>

definition factory_world :: state where
  "factory_world =
     registerFactory 1 Logger (\<lambda>n. Obj n FileLogger [])
       (state_of (createChildContainer 0
          (registerInstance 0 OtherLogger (JStr ''root'')
             (state_of (create_Container
                (createComposite Logger CompositeLogger []
                   (createImplementation Logger ConsoleLogger [] init_state)))))))"

definition provider_world :: state where
  "provider_world = register_transient 1 ConsoleLogger factory_world"

definition instance_world :: state where
  "instance_world = registerInstance 1 Logger (JStr ''instance'') provider_world"

definition precedence_world :: state where
  "precedence_world = state_of (registerComposite 1 CompositeLogger instance_world)"


definition TimingDecorator :: cls where
  "TimingDecorator = Class 5 ''TimingDecorator''"

text \<open>
  \<^verbatim>\<open>
  createImplementation({abstraction: Logger, implementation: ConsoleLogger, dependencies: []});
  createDecorator({abstraction: Logger, decorator: LoggerDecorator, dependencies: []});
  createDecorator({abstraction: Logger, decorator: TimingDecorator, dependencies: []});
  createImplementation({abstraction: Logger, implementation: FileLogger, dependencies: []});
  const root = new Container();                // address 0
  root.registerDecorator(LoggerDecorator);
  root.registerDecorator(TimingDecorator);
  root.register(ConsoleLogger);
  const child = root.createChildContainer();   // address 1
  child.register(FileLogger);
  \<close>
\<close>

definition decorator_world :: state where
  "decorator_world =
     register_transient 1 FileLogger
       (state_of (createChildContainer 0
          (register_transient 0 ConsoleLogger
             (state_of (registerDecorator 0 TimingDecorator
                (state_of (registerDecorator 0 LoggerDecorator
                   (state_of (create_Container
                      (createImplementation Logger FileLogger []
                         (createDecorator Logger TimingDecorator []
                            (createDecorator Logger LoggerDecorator []
                               (createImplementation Logger ConsoleLogger []
                                  init_state)))))))))))))"

definition optional_true :: DependencyOptions where
  "optional_true = \<lparr>multiple = False, optional = True\<rparr>"

text \<open>
  \<^verbatim>\<open>
  createImplementation({abstraction: Logger, implementation: ConsoleLogger, dependencies: []});
  createImplementation({abstraction: Logger, implementation: FileLogger, dependencies: []});
  createComposite({abstraction: Logger, implementation: CompositeLogger,
                   dependencies: [[Logger, {multiple: true}]]});
  createDecorator({abstraction: Logger, decorator: LoggerDecorator, dependencies: []});
  const root = new Container();                // address 0
  root.registerInstance(Logger, "root instance");
  root.register(ConsoleLogger).inSingletonScope();
  root.registerComposite(CompositeLogger);
  const child = root.createChildContainer();   // address 1
  child.registerFactory(Logger, () => new FileLogger());
  child.register(FileLogger);
  child.registerInstance(Logger, "child instance");
  child.registerDecorator(LoggerDecorator);
  \<close>
\<close>

definition collect_world :: state where
  "collect_world =
     state_of (registerDecorator 1 LoggerDecorator
       (registerInstance 1 Logger (JStr ''child instance'')
          (register_transient 1 FileLogger
             (registerFactory 1 Logger (\<lambda>n. Obj n FileLogger [])
                (state_of (createChildContainer 0
                   (state_of (registerComposite 0 CompositeLogger
                      (register_singleton 0 ConsoleLogger
                         (registerInstance 0 Logger (JStr ''root instance'')
                            (state_of (create_Container
                               (createDecorator Logger LoggerDecorator []
                                  (createComposite Logger CompositeLogger
                                     [WithOptions (Abstr Logger) multiple_true]
                                     (createImplementation Logger FileLogger []
                                        (createImplementation Logger ConsoleLogger []
                                           init_state))))))))))))))))"

text \<open>
  \<^verbatim>\<open>
  createComposite({abstraction: Logger, implementation: CompositeLogger,
                   dependencies: [[Logger, {multiple: true}]]});
  createDecorator({abstraction: Logger, decorator: LoggerDecorator, dependencies: []});
  const root = new Container();                // address 0
  root.registerComposite(CompositeLogger);
  root.registerDecorator(LoggerDecorator);
  const child = root.createChildContainer();   // address 1
  \<close>
\<close>

definition composite_only_world :: state where
  "composite_only_world =
     state_of (createChildContainer 0
       (state_of (registerDecorator 0 LoggerDecorator
          (state_of (registerComposite 0 CompositeLogger
             (state_of (create_Container
                (createDecorator Logger LoggerDecorator []
                   (createComposite Logger CompositeLogger
                      [WithOptions (Abstr Logger) multiple_true] init_state)))))))))"

definition Formatter :: abstraction where
  "Formatter = new_Abstraction 2 ''Formatter''"

definition JsonFormatter :: cls where
  "JsonFormatter = Class 6 ''JsonFormatter''"

definition TextFormatter :: cls where
  "TextFormatter = Class 7 ''TextFormatter''"

text \<open>
  \<^verbatim>\<open>
  createImplementation({abstraction: Logger, implementation: ConsoleLogger, dependencies: []});
  createDecorator({abstraction: Logger, decorator: LoggerDecorator, dependencies: []});
  const root = new Container();                      // address 0
  root.register(ConsoleLogger).inSingletonScope();
  root.registerDecorator(LoggerDecorator);
  const child = root.createChildContainer();         // address 1
  const grandchild = child.createChildContainer();   // address 2
  \<close>
\<close>

definition singleton_world :: state where
  "singleton_world =
     state_of (createChildContainer 1
       (state_of (createChildContainer 0
          (state_of (registerDecorator 0 LoggerDecorator
             (register_singleton 0 ConsoleLogger
                (state_of (create_Container
                   (createDecorator Logger LoggerDecorator []
                      (createImplementation Logger ConsoleLogger [] init_state))))))))))"

text \<open>
  \<^verbatim>\<open>
  createImplementation({abstraction: Logger, implementation: ConsoleLogger, dependencies: []});
  createImplementation({abstraction: Logger, implementation: FileLogger, dependencies: []});
  createImplementation({abstraction: Formatter, implementation: JsonFormatter,
                        dependencies: []});
  createImplementation({abstraction: Formatter, implementation: TextFormatter,
                        dependencies: []});
  const root = new Container();                      // address 0
  root.register(ConsoleLogger).inSingletonScope();
  root.register(FileLogger);
  root.register(JsonFormatter).inSingletonScope();
  const child = root.createChildContainer();         // address 1
  child.register(TextFormatter);
  const grandchild = child.createChildContainer();   // address 2
  \<close>
\<close>

definition shadow_world :: state where
  "shadow_world =
     state_of (createChildContainer 1
       (register_transient 1 TextFormatter
          (state_of (createChildContainer 0
             (register_singleton 0 JsonFormatter
                (register_transient 0 FileLogger
                   (register_singleton 0 ConsoleLogger
                      (state_of (create_Container
                         (createImplementation Formatter TextFormatter []
                            (createImplementation Formatter JsonFormatter []
                               (createImplementation Logger FileLogger []
                                  (createImplementation Logger ConsoleLogger []
                                     init_state)))))))))))))"

text \<open>
  Two contracts created with the same label, and two classes with the same name (declared
  in different modules):
  \<^verbatim>\<open>
  const Logger = new Abstraction("Logger");
  const OtherLogger = new Abstraction("Logger");
  createImplementation({abstraction: Logger, implementation: ConsoleLogger, dependencies: []});
  createImplementation({abstraction: OtherLogger, implementation: OtherConsoleLogger,
                        dependencies: []});
  const root = new Container();                      // address 0
  root.register(ConsoleLogger).inSingletonScope();
  root.register(OtherConsoleLogger).inSingletonScope();
  \<close>
\<close>

definition same_label_world :: state where
  "same_label_world =
     register_singleton 0 OtherConsoleLogger
       (register_singleton 0 ConsoleLogger
          (state_of (create_Container
             (createImplementation OtherLogger OtherConsoleLogger []
                (createImplementation Logger ConsoleLogger [] init_state)))))"

text \<open>
  \<^verbatim>\<open>
  createImplementation({abstraction: Logger, implementation: ConsoleLogger,
                        dependencies: [Formatter]});
  createImplementation({abstraction: Formatter, implementation: JsonFormatter,
                        dependencies: [[Logger, {optional: true}]]});
  const root = new Container();                      // address 0
  root.register(JsonFormatter);
  const child = root.createChildContainer();         // address 1
  child.register(ConsoleLogger);
  \<close>
\<close>

definition optional_cycle_world :: state where
  "optional_cycle_world =
     register_transient 1 ConsoleLogger
       (state_of (createChildContainer 0
          (register_transient 0 JsonFormatter
             (state_of (create_Container
                (createImplementation Formatter JsonFormatter
                   [WithOptions (Abstr Logger) optional_true]
                   (createImplementation Logger ConsoleLogger [Bare (Abstr Formatter)]
                      init_state)))))))"

text \<open>
  \<^verbatim>\<open>
  createImplementation({abstraction: Logger, implementation: ConsoleLogger, dependencies: []});
  createImplementation({abstraction: Formatter, implementation: JsonFormatter,
                        dependencies: []});
  createDecorator({abstraction: Logger, decorator: LoggerDecorator,
                   dependencies: [Formatter]});
  createDecorator({abstraction: Logger, decorator: TimingDecorator,
                   dependencies: [Formatter, [OtherLogger, {optional: true}]]});
  createImplementation({abstraction: Logger, implementation: FileLogger, dependencies: []});
  const root = new Container();                // address 0
  root.register(ConsoleLogger);
  root.register(JsonFormatter);
  root.registerDecorator(LoggerDecorator);
  root.registerDecorator(TimingDecorator);
  const child = root.createChildContainer();   // address 1
  child.register(FileLogger);
  \<close>
\<close>

definition dependent_decorator_world :: state where
  "dependent_decorator_world =
     register_transient 1 FileLogger
       (state_of (createChildContainer 0
          (state_of (registerDecorator 0 TimingDecorator
             (state_of (registerDecorator 0 LoggerDecorator
                (register_transient 0 JsonFormatter
                   (register_transient 0 ConsoleLogger
                      (state_of (create_Container
                         (createImplementation Logger FileLogger []
                            (createDecorator Logger TimingDecorator
                               [Bare (Abstr Formatter),
                                WithOptions (Abstr OtherLogger) optional_true]
                               (createDecorator Logger LoggerDecorator
                                  [Bare (Abstr Formatter)]
                                  (createImplementation Formatter JsonFormatter []
                                     (createImplementation Logger ConsoleLogger []
                                        init_state)))))))))))))))"

text \<open>
  \<^verbatim>\<open>
  createImplementation({abstraction: Logger, implementation: ConsoleLogger, dependencies: []});
  createDecorator({abstraction: Logger, decorator: LoggerDecorator, dependencies: [Logger]});
  const root = new Container();                // address 0
  root.register(ConsoleLogger);
  root.registerDecorator(LoggerDecorator);
  \<close>
\<close>

definition decorator_cycle_world :: state where
  "decorator_cycle_world =
     state_of (registerDecorator 0 LoggerDecorator
       (register_transient 0 ConsoleLogger
          (state_of (create_Container
             (createDecorator Logger LoggerDecorator [Bare (Abstr Logger)]
                (createImplementation Logger ConsoleLogger [] init_state))))))"

section \<open>What resolution leaves unchanged\<close>

text \<open>
  The resolution methods write only \<open>this.instances\<close> and allocate objects. \<open>static\<close> is
  the rest of the state: the registration tables and parent of every container, the
  metadata table and the container counter.
\<close>

definition static :: "state \<Rightarrow> (nat \<Rightarrow> Container) \<times> (cls \<Rightarrow> Meta) \<times> nat" where
  "static st = (\<lambda>c. (heap st c)\<lparr>instances := Map.empty\<rparr>, metadata st, next_cid st)"

definition unchanged :: "state \<Rightarrow> 'a result \<Rightarrow> bool" where
  "unchanged st r =
     (case r of Return x st' \<Rightarrow> static st' = static st
      | Throw e st' \<Rightarrow> static st' = static st
      | OutOfFuel \<Rightarrow> True)"

section \<open>Basic facts\<close>

lemma get_or_empty_simps [simp]:
  "m k = None \<Longrightarrow> get_or_empty m k = []"
  "m k = Some xs \<Longrightarrow> get_or_empty m k = xs"
  by (simp_all add: get_or_empty_def)

lemma bind_assoc: "bind (bind m f) g = bind m (\<lambda>x st. bind (f x st) g)"
  by (cases m) simp_all

lemma foldM_snoc:
  "foldM f (xs @ [x]) r st = bind (foldM f xs r st) (\<lambda>r1 st1. f x r1 st1)"
proof (induction xs arbitrary: r st)
  case Nil
  show ?case by (cases "f x r st") simp_all
next
  case (Cons y ys)
  show ?case by (cases "f y r st") (simp_all add: Cons.IH)
qed

lemma bind_Return_iff:
  "bind m f = Return y st' \<longleftrightarrow> (\<exists>x st1. m = Return x st1 \<and> f x st1 = Return y st')"
  by (cases m) simp_all

lemma no_options_simps [simp]: "\<not> multiple no_options" "\<not> optional no_options"
  by (simp_all add: no_options_def)

lemma mapM_length:
  assumes "mapM f xs st = Return ys st'"
  shows "length ys = length xs"
  using assms
proof (induction xs arbitrary: st ys)
  case Nil
  then show ?case by simp
next
  case (Cons x xs)
  from Cons.prems obtain y st1 zs where "mapM f xs st1 = Return zs st'" and "ys = y # zs"
    by (auto simp: bind_Return_iff)
  with Cons.IH show ?case by simp
qed

lemma mapM_prefix_throw:
  assumes "mapM f xs st = Return vs st1" and "f y st1 = Throw e st2"
  shows "mapM f (xs @ y # ys) st = Throw e st2"
  using assms
proof (induction xs arbitrary: st vs)
  case Nil
  then show ?case by simp
next
  case (Cons x xs)
  from Cons.prems(1) obtain v st' ws where 1: "f x st = Return v st'"
    and 2: "mapM f xs st' = Return ws st1"
    by (auto simp: bind_Return_iff)
  from Cons.IH[OF 2 Cons.prems(2)] 1 show ?case by simp
qed

lemmas example_defs =
  register_transient_def register_singleton_def Logger_def OtherLogger_def ConsoleLogger_def
  FileLogger_def CompositeLogger_def LoggerDecorator_def OtherConsoleLogger_def
  TimingDecorator_def Formatter_def JsonFormatter_def TextFormatter_def
  multiple_true_def optional_true_def
  create_Container_def createChildContainer_def createImplementation_def createDecorator_def
  createComposite_def createDependency_def init_state_def register_def inSingletonScope_def
  registerInstance_def registerFactory_def registerDecorator_def registerComposite_def
  update_container_def update_metadata_def isComposite_def isDecorator_def no_meta_def
  new_Abstraction_def new_Container_def dependencies_or_empty_def no_options_def
  resolveDependencies_def new_object_def call_factory_def decorate_def instanceKey_def
  instances_set_def symbol_toString_def toString_def resolve_def resolveAll_def get_or_empty_def

subsection \<open>The frame of resolution\<close>

lemma unchanged_simps [simp]:
  "unchanged st (Return x st') = (static st' = static st)"
  "unchanged st (Throw e st') = (static st' = static st)"
  "unchanged st OutOfFuel"
  by (simp_all add: unchanged_def)

lemma unchanged_static: "static st1 = static st \<Longrightarrow> unchanged st1 r \<Longrightarrow> unchanged st r"
  by (cases r) simp_all

lemma unchanged_bind:
  assumes "unchanged st m"
    and "\<And>x st1. static st1 = static st \<Longrightarrow> unchanged st1 (f x st1)"
  shows "unchanged st (bind m f)"
proof (cases m)
  case (Return x st1)
  with assms(1) have s: "static st1 = static st" by simp
  from assms(2)[OF s] s have "unchanged st (f x st1)" by (rule unchanged_static[rotated])
  with Return show ?thesis by simp
next
  case (Throw e st1)
  with assms(1) show ?thesis by simp
next
  case OutOfFuel
  then show ?thesis by simp
qed

lemma unchanged_mapM:
  assumes "\<And>x st. unchanged st (f x st)"
  shows "unchanged st (mapM f xs st)"
proof (induction xs arbitrary: st)
  case Nil
  show ?case by simp
next
  case (Cons x xs)
  show ?case
    by (simp, intro unchanged_bind assms Cons.IH) simp
qed

lemma unchanged_mapM_stack:
  assumes "\<And>x stk st. unchanged st (f x stk st)"
  shows "unchanged st (mapM_stack f xs stk st)"
proof (induction xs arbitrary: stk st)
  case Nil
  show ?case by simp
next
  case (Cons x xs)
  show ?case
    by (simp, intro unchanged_bind assms Cons.IH) simp
qed

lemma unchanged_foldM:
  assumes "\<And>x r st. unchanged st (f x r st)"
  shows "unchanged st (foldM f xs r st)"
proof (induction xs arbitrary: r st)
  case Nil
  show ?case by simp
next
  case (Cons x xs)
  show ?case
    by (simp, intro unchanged_bind assms Cons.IH)
qed

lemma static_alloc [simp]: "static (st\<lparr>next_oid := k\<rparr>) = static st"
  by (simp add: static_def)

lemma static_instances_set [simp]: "static (instances_set c key v st) = static st"
  by (auto simp add: static_def instances_set_def update_container_def fun_eq_iff)

lemma unchanged_new_object [simp]: "unchanged st (new_object k args st)"
  by (simp add: new_object_def)

lemma unchanged_call_factory [simp]: "unchanged st (call_factory f st)"
  by (simp add: call_factory_def)

lemma unchanged_resolveDependencies:
  assumes "\<And>t stk opts st. unchanged st (ri t stk opts st)"
  shows "unchanged st (resolveDependencies ri deps stk st)"
  unfolding resolveDependencies_def
  by (intro unchanged_mapM unchanged_bind assms) simp

lemma unchanged_decorate:
  assumes "\<And>t stk opts st. unchanged st (ri t stk opts st)"
  shows "unchanged st (decorate ri stk d r st)"
  unfolding decorate_def
  by (intro unchanged_bind unchanged_resolveDependencies assms) simp

lemma static_fields:
  assumes "static st' = static st"
  shows "registrations (heap st' c) = registrations (heap st c)"
    and "decorators (heap st' c) = decorators (heap st c)"
    and "factories (heap st' c) = factories (heap st c)"
    and "instanceRegistrations (heap st' c) = instanceRegistrations (heap st c)"
    and "composites (heap st' c) = composites (heap st c)"
    and "parent (heap st' c) = parent (heap st c)"
    and "metadata st' = metadata st"
proof -
  from assms have h: "(heap st' c)\<lparr>instances := Map.empty\<rparr> = (heap st c)\<lparr>instances := Map.empty\<rparr>"
    by (simp add: static_def fun_eq_iff)
  from arg_cong[OF h, of registrations] show "registrations (heap st' c) = registrations (heap st c)" by simp
  from arg_cong[OF h, of decorators] show "decorators (heap st' c) = decorators (heap st c)" by simp
  from arg_cong[OF h, of factories] show "factories (heap st' c) = factories (heap st c)" by simp
  from arg_cong[OF h, of instanceRegistrations] show "instanceRegistrations (heap st' c) = instanceRegistrations (heap st c)" by simp
  from arg_cong[OF h, of composites] show "composites (heap st' c) = composites (heap st c)" by simp
  from arg_cong[OF h, of parent] show "parent (heap st' c) = parent (heap st c)" by simp
  from assms show "metadata st' = metadata st" by (simp add: static_def)
qed

lemma unchanged_step:
  assumes ri: "\<And>c t stk opts st. unchanged st (resolveInternal n c t stk opts st)"
    and tr: "\<And>c a stk opts st. unchanged st (tryResolveFromCurrentContainer n c a stk opts st)"
    and rr: "\<And>c a r stk st. unchanged st (resolveRegistration n c a r stk st)"
    and rm: "\<And>c a stk st. unchanged st (resolveMultiple n c a stk st)"
    and ad: "\<And>c a v stk st. unchanged st (applyDecorators n c a v stk st)"
    and rd: "\<And>c k stk st. unchanged st (resolveDependencyOnly n c k stk st)"
  shows "unchanged st (resolveInternal (Suc n) c t stk opts st)"
    and "unchanged st (tryResolveFromCurrentContainer (Suc n) c a stk opts st)"
    and "unchanged st (resolveRegistration (Suc n) c a r stk st)"
    and "unchanged st (resolveMultiple (Suc n) c a stk st)"
    and "unchanged st (applyDecorators (Suc n) c a v stk st)"
    and "unchanged st (resolveDependencyOnly (Suc n) c k stk st)"
proof -
  note deps = unchanged_resolveDependencies[of "resolveInternal n c", OF ri]
  show "unchanged st (resolveInternal (Suc n) c t stk opts st)"
  proof (cases t)
    case (Ctor k)
    then show ?thesis by (simp, intro unchanged_bind rd) simp
  next
    case (Abstr a)
    show ?thesis unfolding Abstr
      by (simp, intro impI unchanged_bind tr) (auto split: option.splits intro: ri)
  qed
  show "unchanged st (tryResolveFromCurrentContainer (Suc n) c a stk opts st)"
    by (auto simp: Let_def split: option.splits intro!: unchanged_bind rm deps ad rr)
  show "unchanged st (resolveRegistration (Suc n) c a r stk st)"
    by (auto simp: Let_def split: option.splits intro!: unchanged_bind deps ad)
  show "unchanged st (resolveMultiple (Suc n) c a stk st)"
    by (auto simp: Let_def split: option.splits intro!: unchanged_bind unchanged_mapM_stack rm ad rr)
  show "unchanged st (applyDecorators (Suc n) c a v stk st)"
    by (simp, intro unchanged_foldM unchanged_decorate ri)
  show "unchanged st (resolveDependencyOnly (Suc n) c k stk st)"
    by (auto split: option.splits intro!: unchanged_bind deps)
qed

lemma unchanged_all:
  "(\<forall>c t stk opts st. unchanged st (resolveInternal n c t stk opts st)) \<and>
   (\<forall>c a stk opts st. unchanged st (tryResolveFromCurrentContainer n c a stk opts st)) \<and>
   (\<forall>c a r stk st. unchanged st (resolveRegistration n c a r stk st)) \<and>
   (\<forall>c a stk st. unchanged st (resolveMultiple n c a stk st)) \<and>
   (\<forall>c a v stk st. unchanged st (applyDecorators n c a v stk st)) \<and>
   (\<forall>c k stk st. unchanged st (resolveDependencyOnly n c k stk st))"
proof (induction n)
  case 0
  show ?case by simp
next
  case (Suc n)
  then have ri: "\<And>c t stk opts st. unchanged st (resolveInternal n c t stk opts st)"
    and tr: "\<And>c a stk opts st. unchanged st (tryResolveFromCurrentContainer n c a stk opts st)"
    and rr: "\<And>c a r stk st. unchanged st (resolveRegistration n c a r stk st)"
    and rm: "\<And>c a stk st. unchanged st (resolveMultiple n c a stk st)"
    and ad: "\<And>c a v stk st. unchanged st (applyDecorators n c a v stk st)"
    and rd: "\<And>c k stk st. unchanged st (resolveDependencyOnly n c k stk st)"
    by simp_all
  show ?case
    using unchanged_step[of n, OF ri tr rr rm ad rd] by simp
qed

lemma unchanged_resolveInternal: "unchanged st (resolveInternal n c t stk opts st)"
  using unchanged_all[of n] by simp

lemma unchanged_tryResolve: "unchanged st (tryResolveFromCurrentContainer n c a stk opts st)"
  using unchanged_all[of n] by simp

lemma unchanged_resolveRegistration: "unchanged st (resolveRegistration n c a r stk st)"
  using unchanged_all[of n] by simp

lemma unchanged_resolveMultiple: "unchanged st (resolveMultiple n c a stk st)"
  using unchanged_all[of n] by simp

lemma unchanged_applyDecorators: "unchanged st (applyDecorators n c a v stk st)"
  using unchanged_all[of n] by simp

section \<open>Circular dependencies\<close>




section \<open>Composites\<close>

text \<open>
  Claim C6. When the resolving container holds a composite record for the contract,
  \<open>resolve\<close> resolves the composite's dependencies, with the contract marked on the
  stack, and returns the object constructed from them: a new object of the composite's
  class whose arguments are the resolved dependencies. The container's decorator list for
  the contract plays no part in it. The same holds for a non-multiple dependency request
  whose contract is not yet on the stack.
\<close>

theorem composite_not_decorated:
  assumes "composites (heap st c) (token a) = Some composite"
  shows "resolve (Suc (Suc n)) c a st =
     bind (resolveDependencies (resolveInternal n c) (dependencies composite) {token a} st)
       (\<lambda>resolvedDeps st1.
          Return (Obj (next_oid st1) (implementation composite) resolvedDeps)
            (st1\<lparr>next_oid := Suc (next_oid st1)\<rparr>))
   \<and> (\<not> multiple opts \<and> token a \<notin> stk \<longrightarrow>
      resolveInternal (Suc (Suc n)) c (Abstr a) stk opts st =
        bind (resolveDependencies (resolveInternal n c) (dependencies composite)
                (insert (token a) stk) st)
          (\<lambda>resolvedDeps st1.
             Return (Obj (next_oid st1) (implementation composite) resolvedDeps, stk)
               (st1\<lparr>next_oid := Suc (next_oid st1)\<rparr>)))"
proof (intro conjI impI)
  show "resolve (Suc (Suc n)) c a st =
     bind (resolveDependencies (resolveInternal n c) (dependencies composite) {token a} st)
       (\<lambda>resolvedDeps st1.
          Return (Obj (next_oid st1) (implementation composite) resolvedDeps)
            (st1\<lparr>next_oid := Suc (next_oid st1)\<rparr>))"
    using assms
    by (cases "resolveDependencies (resolveInternal n c) (dependencies composite)
                 {token a} st")
       (simp_all add: new_object_def resolve_def)
next
  assume "\<not> multiple opts \<and> token a \<notin> stk"
  with assms show "resolveInternal (Suc (Suc n)) c (Abstr a) stk opts st =
        bind (resolveDependencies (resolveInternal n c) (dependencies composite)
                (insert (token a) stk) st)
          (\<lambda>resolvedDeps st1.
             Return (Obj (next_oid st1) (implementation composite) resolvedDeps, stk)
               (st1\<lparr>next_oid := Suc (next_oid st1)\<rparr>))"
    by (cases "resolveDependencies (resolveInternal n c) (dependencies composite)
                 (insert (token a) stk) st")
       (simp_all add: new_object_def)
qed

text \<open>A container with two providers, a composite and a decorator of \<open>Logger\<close>: the
  providers collected by the composite are decorated, the composite is not.\<close>

theorem composite_not_decorated_witness:
  "composites (heap composite_world 0) (token Logger) =
     Some \<lparr>implementation = CompositeLogger,
           dependencies = [WithOptions (Abstr Logger) multiple_true], scope = Transient\<rparr> \<and>
   decorators (heap composite_world 0) (token Logger) =
     Some [\<lparr>decoratorClass = LoggerDecorator, decorator_dependencies = []\<rparr>] \<and>
   returned (resolve (Suc (Suc 5)) 0 Logger composite_world) =
     Some (Obj 4 CompositeLogger
             [Arr [Obj 1 LoggerDecorator [Obj 0 ConsoleLogger []],
                   Obj 3 LoggerDecorator [Obj 2 FileLogger []]]]) \<and>
   \<not> multiple no_options \<and> token Logger \<notin> {token Formatter} \<and>
   returned (resolveInternal (Suc (Suc 5)) 0 (Abstr Logger) {token Formatter} no_options
               composite_world) =
     Some (Obj 4 CompositeLogger
             [Arr [Obj 1 LoggerDecorator [Obj 0 ConsoleLogger []],
                   Obj 3 LoggerDecorator [Obj 2 FileLogger []]]], {token Formatter})"
proof -
  let ?comp = "\<lparr>implementation = CompositeLogger,
           dependencies = [WithOptions (Abstr Logger) multiple_true], scope = Transient\<rparr>"
  have h1: "composites (heap composite_world 0) (token Logger) = Some ?comp"
    by (simp add: composite_world_def example_defs)
  have h2: "\<not> multiple no_options \<and> token Logger \<notin> {token Formatter}"
    by (simp add: example_defs)
  have d: "decorators (heap composite_world 0) (token Logger) =
     Some [\<lparr>decoratorClass = LoggerDecorator, decorator_dependencies = []\<rparr>]"
    by (simp add: composite_world_def example_defs)
  have e1: "returned (bind (resolveDependencies (resolveInternal 5 0) (dependencies ?comp)
             {token Logger} composite_world)
       (\<lambda>resolvedDeps st1.
          Return (Obj (next_oid st1) (implementation ?comp) resolvedDeps)
            (st1\<lparr>next_oid := Suc (next_oid st1)\<rparr>))) =
     Some (Obj 4 CompositeLogger
             [Arr [Obj 1 LoggerDecorator [Obj 0 ConsoleLogger []],
                   Obj 3 LoggerDecorator [Obj 2 FileLogger []]]])"
    by (simp add: composite_world_def example_defs numeral_nat Let_def)
  have e2: "returned (bind (resolveDependencies (resolveInternal 5 0) (dependencies ?comp)
             (insert (token Logger) {token Formatter}) composite_world)
       (\<lambda>resolvedDeps st1.
          Return (Obj (next_oid st1) (implementation ?comp) resolvedDeps, {token Formatter})
            (st1\<lparr>next_oid := Suc (next_oid st1)\<rparr>))) =
     Some (Obj 4 CompositeLogger
             [Arr [Obj 1 LoggerDecorator [Obj 0 ConsoleLogger []],
                   Obj 3 LoggerDecorator [Obj 2 FileLogger []]]], {token Formatter})"
    by (simp add: composite_world_def example_defs numeral_nat Let_def)
  from composite_not_decorated[OF h1, of 5 no_options "{token Formatter}"] h2
  have c1: "resolve (Suc (Suc 5)) 0 Logger composite_world =
      bind (resolveDependencies (resolveInternal 5 0) (dependencies ?comp)
             {token Logger} composite_world)
       (\<lambda>resolvedDeps st1.
          Return (Obj (next_oid st1) (implementation ?comp) resolvedDeps)
            (st1\<lparr>next_oid := Suc (next_oid st1)\<rparr>))"
    and c2: "resolveInternal (Suc (Suc 5)) 0 (Abstr Logger) {token Formatter} no_options
               composite_world =
      bind (resolveDependencies (resolveInternal 5 0) (dependencies ?comp)
             (insert (token Logger) {token Formatter}) composite_world)
       (\<lambda>resolvedDeps st1.
          Return (Obj (next_oid st1) (implementation ?comp) resolvedDeps, {token Formatter})
            (st1\<lparr>next_oid := Suc (next_oid st1)\<rparr>))"
    by blast+
  show ?thesis
    unfolding c1 c2 using h1 h2 d e1 e2 by simp
qed

section \<open>Decorators\<close>

text \<open>
  Claim C5. \<open>applyDecorators\<close> folds from left to right over the decorator list that the
  container it runs in holds for the contract. With no decorators it returns the base
  instance unchanged. With a list that ends in decorator \<open>d\<close>, the dependencies that \<open>d\<close>
  declares are resolved one after the other by \<open>resolveInternal\<close> of this container, each
  with its own target and options on the stack as it is, and the result is a new object
  of the class of \<open>d\<close> whose arguments are these resolved values, one for each declared
  dependency, followed by the result of the earlier decorators as last argument: the
  last-registered decorator is the outermost wrapper. The list is the one of container
  \<open>c\<close> alone; no ancestor's list is read.
\<close>

theorem decorator_fold:
  "(get_or_empty (decorators (heap st c)) (token a) = [] \<longrightarrow>
      applyDecorators (Suc n) c a v stk st = Return v st)
   \<and> (get_or_empty (decorators (heap st c)) (token a) = earlier @ [d] \<longrightarrow>
      applyDecorators (Suc n) c a v stk st =
        bind (foldM (decorate (resolveInternal n c) stk) earlier v st) (\<lambda>inner st1.
          bind (mapM (\<lambda>dep st2.
                  bind (resolveInternal n c (dep_target dep) stk (dep_options dep) st2)
                    (\<lambda>r st3. Return (fst r) st3))
                  (decorator_dependencies d) st1)
            (\<lambda>decoratorDeps st2.
               Return (Obj (next_oid st2) (decoratorClass d) (decoratorDeps @ [inner]))
                 (st2\<lparr>next_oid := Suc (next_oid st2)\<rparr>))))
   \<and> (get_or_empty (decorators (heap st c)) (token a) = earlier @ [d] \<and>
      applyDecorators (Suc n) c a v stk st = Return v' st' \<longrightarrow>
      (\<exists>inner st1 decoratorDeps st2.
          foldM (decorate (resolveInternal n c) stk) earlier v st = Return inner st1 \<and>
          length decoratorDeps = length (decorator_dependencies d) \<and>
          v' = Obj (next_oid st2) (decoratorClass d) (decoratorDeps @ [inner]) \<and>
          st' = st2\<lparr>next_oid := Suc (next_oid st2)\<rparr>))"
proof (intro conjI impI)
  assume "get_or_empty (decorators (heap st c)) (token a) = []"
  then show "applyDecorators (Suc n) c a v stk st = Return v st" by simp
next
  assume h: "get_or_empty (decorators (heap st c)) (token a) = earlier @ [d]"
  show "applyDecorators (Suc n) c a v stk st =
        bind (foldM (decorate (resolveInternal n c) stk) earlier v st) (\<lambda>inner st1.
          bind (mapM (\<lambda>dep st2.
                  bind (resolveInternal n c (dep_target dep) stk (dep_options dep) st2)
                    (\<lambda>r st3. Return (fst r) st3))
                  (decorator_dependencies d) st1)
            (\<lambda>decoratorDeps st2.
               Return (Obj (next_oid st2) (decoratorClass d) (decoratorDeps @ [inner]))
                 (st2\<lparr>next_oid := Suc (next_oid st2)\<rparr>)))"
    using h by (simp add: foldM_snoc decorate_def new_object_def resolveDependencies_def)
next
  assume "get_or_empty (decorators (heap st c)) (token a) = earlier @ [d] \<and>
      applyDecorators (Suc n) c a v stk st = Return v' st'"
  then obtain inner st1 decoratorDeps st2 where
    "foldM (decorate (resolveInternal n c) stk) earlier v st = Return inner st1"
    "mapM (\<lambda>dep st2.
        bind (resolveInternal n c (dep_target dep) stk (dep_options dep) st2)
          (\<lambda>r st3. Return (fst r) st3)) (decorator_dependencies d) st1 =
      Return decoratorDeps st2"
    "v' = Obj (next_oid st2) (decoratorClass d) (decoratorDeps @ [inner])"
    "st' = st2\<lparr>next_oid := Suc (next_oid st2)\<rparr>"
    by (auto simp: foldM_snoc decorate_def new_object_def resolveDependencies_def
          bind_Return_iff)
  then show "\<exists>inner st1 decoratorDeps st2.
          foldM (decorate (resolveInternal n c) stk) earlier v st = Return inner st1 \<and>
          length decoratorDeps = length (decorator_dependencies d) \<and>
          v' = Obj (next_oid st2) (decoratorClass d) (decoratorDeps @ [inner]) \<and>
          st' = st2\<lparr>next_oid := Suc (next_oid st2)\<rparr>"
    using mapM_length by blast
qed


text \<open>The root registers two decorators with dependencies and the child none: an
  instance produced in the child is not decorated; one produced in the root is wrapped
  twice, the decorator registered last outermost, each decorator constructed with its
  resolved dependencies (an absent optional one is \<open>undefined\<close>) followed by what it
  wraps.\<close>

theorem decorator_fold_witness:
  "get_or_empty (decorators (heap dependent_decorator_world 1)) (token Logger) = [] \<and>
   applyDecorators (Suc 0) 1 Logger (JStr ''base'') {} dependent_decorator_world =
     Return (JStr ''base'') dependent_decorator_world \<and>
   get_or_empty (decorators (heap dependent_decorator_world 0)) (token Logger) =
     [\<lparr>decoratorClass = LoggerDecorator,
        decorator_dependencies = [Bare (Abstr Formatter)]\<rparr>]
       @ [\<lparr>decoratorClass = TimingDecorator,
            decorator_dependencies =
              [Bare (Abstr Formatter), WithOptions (Abstr OtherLogger) optional_true]\<rparr>] \<and>
   applyDecorators (Suc 4) 0 Logger (JStr ''base'') {} dependent_decorator_world =
     Return (Obj 3 TimingDecorator
               [Obj 2 JsonFormatter [], Undefined,
                Obj 1 LoggerDecorator [Obj 0 JsonFormatter [], JStr ''base'']])
       (dependent_decorator_world\<lparr>next_oid := 4\<rparr>) \<and>
   returned (resolve 8 0 Logger dependent_decorator_world) =
     Some (Obj 4 TimingDecorator
             [Obj 3 JsonFormatter [], Undefined,
              Obj 2 LoggerDecorator [Obj 1 JsonFormatter [], Obj 0 ConsoleLogger []]])"
proof -
  let ?w = dependent_decorator_world
  let ?d1 = "\<lparr>decoratorClass = LoggerDecorator,
               decorator_dependencies = [Bare (Abstr Formatter)]\<rparr>"
  let ?d2 = "\<lparr>decoratorClass = TimingDecorator,
               decorator_dependencies =
                 [Bare (Abstr Formatter), WithOptions (Abstr OtherLogger) optional_true]\<rparr>"
  note defs = dependent_decorator_world_def example_defs
  have h1: "get_or_empty (decorators (heap ?w 1)) (token Logger) = []"
    by (simp add: defs)
  have h2: "get_or_empty (decorators (heap ?w 0)) (token Logger) = [?d1] @ [?d2]"
    by (simp add: defs)
  have e: "bind (foldM (decorate (resolveInternal 4 0) {}) [?d1] (JStr ''base'') ?w)
             (\<lambda>inner st1.
                bind (mapM (\<lambda>dep st2.
                        bind (resolveInternal 4 0 (dep_target dep) {} (dep_options dep) st2)
                          (\<lambda>r st3. Return (fst r) st3))
                        (decorator_dependencies ?d2) st1)
                  (\<lambda>decoratorDeps st2.
                     Return (Obj (next_oid st2) (decoratorClass ?d2) (decoratorDeps @ [inner]))
                       (st2\<lparr>next_oid := Suc (next_oid st2)\<rparr>))) =
           Return (Obj 3 TimingDecorator
               [Obj 2 JsonFormatter [], Undefined,
                Obj 1 LoggerDecorator [Obj 0 JsonFormatter [], JStr ''base'']])
             (?w\<lparr>next_oid := 4\<rparr>)"
    by (simp add: defs numeral_nat Let_def)
  have r: "returned (resolve 8 0 Logger ?w) =
     Some (Obj 4 TimingDecorator
             [Obj 3 JsonFormatter [], Undefined,
              Obj 2 LoggerDecorator [Obj 1 JsonFormatter [], Obj 0 ConsoleLogger []]])"
    by (simp add: defs numeral_nat Let_def)
  from decorator_fold[of ?w 1 Logger 0 "JStr ''base''" "{}"] h1
  have c1: "applyDecorators (Suc 0) 1 Logger (JStr ''base'') {} ?w = Return (JStr ''base'') ?w"
    by blast
  from decorator_fold[of ?w 0 Logger 4 "JStr ''base''" "{}" "[?d1]" ?d2] h2
  have c2: "applyDecorators (Suc 4) 0 Logger (JStr ''base'') {} ?w =
      bind (foldM (decorate (resolveInternal 4 0) {}) [?d1] (JStr ''base'') ?w)
             (\<lambda>inner st1.
                bind (mapM (\<lambda>dep st2.
                        bind (resolveInternal 4 0 (dep_target dep) {} (dep_options dep) st2)
                          (\<lambda>r st3. Return (fst r) st3))
                        (decorator_dependencies ?d2) st1)
                  (\<lambda>decoratorDeps st2.
                     Return (Obj (next_oid st2) (decoratorClass ?d2) (decoratorDeps @ [inner]))
                       (st2\<lparr>next_oid := Suc (next_oid st2)\<rparr>)))"
    by blast
  show ?thesis
    unfolding c1 c2 e using h1 h2 r by simp
qed

section \<open>An undefined local result\<close>

text \<open>
  Claim C10. In a single resolution, when the container has no composite and no decorator
  for the contract and its winning record produces \<open>undefined\<close> (the most recently
  registered instance is \<open>undefined\<close>; or there are no instance and no provider records
  and the most recently registered factory returns \<open>undefined\<close>), the container goes on
  as if it had no record: it asks the parent, and at the root it throws "no registration
  found", or returns \<open>undefined\<close> for an optional request.
\<close>

theorem undefined_falls_through:
  assumes "\<not> multiple opts" and "token a \<notin> stk"
    and "composites (heap st c) (token a) = None"
    and "get_or_empty (decorators (heap st c)) (token a) = []"
  shows
   "(get_or_empty (instanceRegistrations (heap st c)) (token a) = earlier @ [i] \<and>
     inst_value i = Undefined \<longrightarrow>
       resolveInternal (Suc (Suc (Suc n))) c (Abstr a) stk opts st =
         (case parent (heap st c) of
            Some p \<Rightarrow> resolveInternal (Suc (Suc n)) p (Abstr a) stk opts st
          | None \<Rightarrow>
              if optional opts then Return (Undefined, stk) st
              else Throw (NoRegistrationFound (toString a)) st))
    \<and> (get_or_empty (instanceRegistrations (heap st c)) (token a) = [] \<and>
       get_or_empty (registrations (heap st c)) (token a) = [] \<and>
       factories (heap st c) (token a) = Some (older @ [f]) \<and>
       f (next_oid st) = Undefined \<longrightarrow>
       resolveInternal (Suc (Suc (Suc n))) c (Abstr a) stk opts st =
         (case parent (heap st c) of
            Some p \<Rightarrow>
              resolveInternal (Suc (Suc n)) p (Abstr a) stk opts
                (st\<lparr>next_oid := Suc (next_oid st)\<rparr>)
          | None \<Rightarrow>
              if optional opts then Return (Undefined, stk) (st\<lparr>next_oid := Suc (next_oid st)\<rparr>)
              else Throw (NoRegistrationFound (toString a))
                     (st\<lparr>next_oid := Suc (next_oid st)\<rparr>)))"
  using assms by (auto simp: call_factory_def split: option.splits)

text \<open>The child registers the instance \<open>undefined\<close> for \<open>Logger\<close>, which the root provides,
  and a factory returning \<open>undefined\<close> for a contract that the root does not know.\<close>

theorem undefined_falls_through_witness:
  "\<not> multiple no_options \<and> token Logger \<notin> {} \<and>
   composites (heap undefined_world 1) (token Logger) = None \<and>
   get_or_empty (decorators (heap undefined_world 1)) (token Logger) = [] \<and>
   get_or_empty (instanceRegistrations (heap undefined_world 1)) (token Logger) =
     [] @ [\<lparr>inst_value = Undefined\<rparr>] \<and>
   returned (resolveInternal (Suc (Suc (Suc (Suc (Suc 0))))) 1 (Abstr Logger) {} no_options undefined_world) =
     Some (Obj 0 ConsoleLogger [], {}) \<and>
   composites (heap undefined_world 1) (token OtherLogger) = None \<and>
   get_or_empty (decorators (heap undefined_world 1)) (token OtherLogger) = [] \<and>
   get_or_empty (instanceRegistrations (heap undefined_world 1)) (token OtherLogger) = [] \<and>
   get_or_empty (registrations (heap undefined_world 1)) (token OtherLogger) = [] \<and>
   (\<exists>f. factories (heap undefined_world 1) (token OtherLogger) = Some ([] @ [f]) \<and>
        f (next_oid undefined_world) = Undefined) \<and>
   resolveInternal (Suc (Suc (Suc (Suc (Suc 0))))) 1 (Abstr OtherLogger) {} no_options undefined_world =
     Throw (NoRegistrationFound ''Logger'') (undefined_world\<lparr>next_oid := Suc 0\<rparr>)"
proof -
  have a1: "\<not> multiple no_options" by (simp add: no_options_def)
  have a2: "token Logger \<notin> {}" by simp
  have a3: "composites (heap undefined_world 1) (token Logger) = None"
    by (simp add: undefined_world_def example_defs)
  have a4: "get_or_empty (decorators (heap undefined_world 1)) (token Logger) = []"
    by (simp add: undefined_world_def example_defs)
  have a5: "get_or_empty (instanceRegistrations (heap undefined_world 1)) (token Logger) =
     [] @ [\<lparr>inst_value = Undefined\<rparr>] \<and> inst_value \<lparr>inst_value = Undefined\<rparr> = Undefined"
    by (simp add: undefined_world_def example_defs)
  have p1: "parent (heap undefined_world 1) = Some 0"
    by (simp add: undefined_world_def example_defs)
  have e1: "returned (resolveInternal (Suc (Suc (Suc (Suc 0)))) 0 (Abstr Logger) {} no_options undefined_world) =
     Some (Obj 0 ConsoleLogger [], {})"
    by (simp add: undefined_world_def example_defs Let_def)
  have b2: "token OtherLogger \<notin> {}" by simp
  have b3: "composites (heap undefined_world 1) (token OtherLogger) = None"
    by (simp add: undefined_world_def example_defs)
  have b4: "get_or_empty (decorators (heap undefined_world 1)) (token OtherLogger) = []"
    by (simp add: undefined_world_def example_defs)
  have b5: "get_or_empty (instanceRegistrations (heap undefined_world 1)) (token OtherLogger) = [] \<and>
       get_or_empty (registrations (heap undefined_world 1)) (token OtherLogger) = [] \<and>
       factories (heap undefined_world 1) (token OtherLogger) = Some ([] @ [\<lambda>n. Undefined]) \<and>
       (\<lambda>n. Undefined) (next_oid undefined_world) = Undefined"
    by (simp add: undefined_world_def example_defs)
  have n0: "next_oid undefined_world = 0"
    by (simp add: undefined_world_def example_defs)
  have e2: "resolveInternal (Suc (Suc (Suc (Suc 0)))) 0 (Abstr OtherLogger) {} no_options
                (undefined_world\<lparr>next_oid := Suc (next_oid undefined_world)\<rparr>) =
     Throw (NoRegistrationFound ''Logger'') (undefined_world\<lparr>next_oid := Suc 0\<rparr>)"
    by (simp add: undefined_world_def example_defs Let_def)
  from undefined_falls_through[OF a1 a2 a3 a4, where earlier = "[]" and i = "\<lparr>inst_value = Undefined\<rparr>" and n = "Suc (Suc 0)"] a5 p1
  have c1: "resolveInternal (Suc (Suc (Suc (Suc (Suc 0))))) 1 (Abstr Logger) {} no_options undefined_world =
     resolveInternal (Suc (Suc (Suc (Suc 0)))) 0 (Abstr Logger) {} no_options undefined_world"
    by simp
  from undefined_falls_through[OF a1 b2 b3 b4, where older = "[]" and f = "\<lambda>n. Undefined" and n = "Suc (Suc 0)"] b5 p1
  have c2: "resolveInternal (Suc (Suc (Suc (Suc (Suc 0))))) 1 (Abstr OtherLogger) {} no_options undefined_world =
     resolveInternal (Suc (Suc (Suc (Suc 0)))) 0 (Abstr OtherLogger) {} no_options
                (undefined_world\<lparr>next_oid := Suc (next_oid undefined_world)\<rparr>)"
    by simp
  show ?thesis
    using a1 a3 a4 a5 b3 b4 b5 c1 c2 e1 e2 by simp
qed

section \<open>Precedence of local records\<close>

text \<open>The registration methods append: the last element of a list is the record
  registered most recently. A composite replaces the one registered before.\<close>

lemma registerInstance_appends:
  "get_or_empty (instanceRegistrations (heap (registerInstance c a v st) c)) (token a) =
     get_or_empty (instanceRegistrations (heap st c)) (token a) @ [\<lparr>inst_value = v\<rparr>]"
  by (simp add: registerInstance_def update_container_def)

lemma registerFactory_appends:
  "get_or_empty (factories (heap (registerFactory c a f st) c)) (token a) =
     get_or_empty (factories (heap st c)) (token a) @ [f]"
  by (simp add: registerFactory_def update_container_def)

lemma register_appends:
  assumes "register c k st = Return b st'"
  shows "\<exists>a. md_abstraction (metadata st k) = Some a \<and>
           get_or_empty (registrations (heap st' c)) (token a) =
             get_or_empty (registrations (heap st c)) (token a)
               @ [\<lparr>implementation = k,
                    dependencies = dependencies_or_empty (md_dependencies (metadata st k)),
                    scope = Transient\<rparr>]"
  using assms
  by (auto simp: register_def update_container_def Let_def split: if_splits option.splits)

lemma registerDecorator_appends:
  assumes "registerDecorator c k st = Return u st'"
  shows "\<exists>a. md_abstraction (metadata st k) = Some a \<and>
           get_or_empty (decorators (heap st' c)) (token a) =
             get_or_empty (decorators (heap st c)) (token a)
               @ [\<lparr>decoratorClass = k,
                    decorator_dependencies =
                      dependencies_or_empty (md_dependencies (metadata st k))\<rparr>]"
  using assms
  by (auto simp: registerDecorator_def update_container_def Let_def
           split: if_splits option.splits)

lemma registerComposite_replaces:
  assumes "registerComposite c k st = Return u st'"
  shows "\<exists>a. md_abstraction (metadata st k) = Some a \<and>
           composites (heap st' c) (token a) =
             Some \<lparr>implementation = k,
                   dependencies = dependencies_or_empty (md_dependencies (metadata st k)),
                   scope = Transient\<rparr>"
  using assms
  by (auto simp: registerComposite_def update_container_def Let_def
           split: if_splits option.splits)

text \<open>
  Claim C2. A single (non-multiple) resolution looks at the records of the current
  container in a fixed order. A composite record wins: the composite is constructed from
  its resolved dependencies. Otherwise, if there are instance records, the most recently
  registered instance is decorated and returned. Otherwise, if there are provider
  records, the most recently registered provider is resolved by \<open>resolveRegistration\<close>.
  Otherwise, if there are factory records, the most recently registered factory is called
  and its result decorated. Otherwise the container has no match and \<open>resolveInternal\<close>
  continues with the parent container (at the root: the error, or \<open>undefined\<close> for an
  optional request).
\<close>

theorem local_precedence:
  assumes "\<not> multiple opts"
  shows
   "(composites (heap st c) (token a) = Some composite \<longrightarrow>
       tryResolveFromCurrentContainer (Suc n) c a stk opts st =
         bind (resolveDependencies (resolveInternal n c) (dependencies composite)
                 (insert (token a) stk) st)
           (\<lambda>resolvedDeps st1.
              Return (Obj (next_oid st1) (implementation composite) resolvedDeps,
                      stk - {token a})
                (st1\<lparr>next_oid := Suc (next_oid st1)\<rparr>)))
    \<and> (composites (heap st c) (token a) = None \<and>
       get_or_empty (instanceRegistrations (heap st c)) (token a) = earlier @ [i] \<longrightarrow>
       tryResolveFromCurrentContainer (Suc n) c a stk opts st =
         bind (applyDecorators n c a (inst_value i) stk st) (\<lambda>v st1. Return (v, stk) st1))
    \<and> (composites (heap st c) (token a) = None \<and>
       get_or_empty (instanceRegistrations (heap st c)) (token a) = [] \<and>
       get_or_empty (registrations (heap st c)) (token a) = previous @ [r] \<longrightarrow>
       tryResolveFromCurrentContainer (Suc n) c a stk opts st =
         resolveRegistration n c a r stk st)
    \<and> (composites (heap st c) (token a) = None \<and>
       get_or_empty (instanceRegistrations (heap st c)) (token a) = [] \<and>
       get_or_empty (registrations (heap st c)) (token a) = [] \<and>
       get_or_empty (factories (heap st c)) (token a) = older @ [f] \<longrightarrow>
       tryResolveFromCurrentContainer (Suc n) c a stk opts st =
         bind (applyDecorators n c a (f (next_oid st)) stk (st\<lparr>next_oid := Suc (next_oid st)\<rparr>))
           (\<lambda>v st1. Return (v, stk) st1))
    \<and> (composites (heap st c) (token a) = None \<and>
       get_or_empty (instanceRegistrations (heap st c)) (token a) = [] \<and>
       get_or_empty (registrations (heap st c)) (token a) = [] \<and>
       get_or_empty (factories (heap st c)) (token a) = [] \<and> token a \<notin> stk \<longrightarrow>
       resolveInternal (Suc (Suc n)) c (Abstr a) stk opts st =
         (case parent (heap st c) of
            Some p \<Rightarrow> resolveInternal (Suc n) p (Abstr a) stk opts st
          | None \<Rightarrow>
              if optional opts then Return (Undefined, stk) st
              else Throw (NoRegistrationFound (toString a)) st))"
proof (intro conjI impI)
  assume "composites (heap st c) (token a) = Some composite"
  with assms show "tryResolveFromCurrentContainer (Suc n) c a stk opts st =
         bind (resolveDependencies (resolveInternal n c) (dependencies composite)
                 (insert (token a) stk) st)
           (\<lambda>resolvedDeps st1.
              Return (Obj (next_oid st1) (implementation composite) resolvedDeps,
                      stk - {token a})
                (st1\<lparr>next_oid := Suc (next_oid st1)\<rparr>))"
    by (simp add: new_object_def)
next
  assume "composites (heap st c) (token a) = None \<and>
       get_or_empty (instanceRegistrations (heap st c)) (token a) = earlier @ [i]"
  with assms show "tryResolveFromCurrentContainer (Suc n) c a stk opts st =
         bind (applyDecorators n c a (inst_value i) stk st) (\<lambda>v st1. Return (v, stk) st1)"
    by simp
next
  assume "composites (heap st c) (token a) = None \<and>
       get_or_empty (instanceRegistrations (heap st c)) (token a) = [] \<and>
       get_or_empty (registrations (heap st c)) (token a) = previous @ [r]"
  with assms show "tryResolveFromCurrentContainer (Suc n) c a stk opts st =
         resolveRegistration n c a r stk st"
    by simp
next
  assume "composites (heap st c) (token a) = None \<and>
       get_or_empty (instanceRegistrations (heap st c)) (token a) = [] \<and>
       get_or_empty (registrations (heap st c)) (token a) = [] \<and>
       get_or_empty (factories (heap st c)) (token a) = older @ [f]"
  with assms show "tryResolveFromCurrentContainer (Suc n) c a stk opts st =
         bind (applyDecorators n c a (f (next_oid st)) stk (st\<lparr>next_oid := Suc (next_oid st)\<rparr>))
           (\<lambda>v st1. Return (v, stk) st1)"
    by (auto simp: call_factory_def get_or_empty_def split: option.splits)
next
  assume "composites (heap st c) (token a) = None \<and>
       get_or_empty (instanceRegistrations (heap st c)) (token a) = [] \<and>
       get_or_empty (registrations (heap st c)) (token a) = [] \<and>
       get_or_empty (factories (heap st c)) (token a) = [] \<and> token a \<notin> stk"
  with assms show "resolveInternal (Suc (Suc n)) c (Abstr a) stk opts st =
         (case parent (heap st c) of
            Some p \<Rightarrow> resolveInternal (Suc n) p (Abstr a) stk opts st
          | None \<Rightarrow>
              if optional opts then Return (Undefined, stk) st
              else Throw (NoRegistrationFound (toString a)) st)"
    by (auto simp: get_or_empty_def split: option.splits)
qed


text \<open>A child container that registers, in this order, a factory, a provider, an instance
  and a composite of \<open>Logger\<close>: each later kind takes over. \<open>OtherLogger\<close> is known to the
  root only.\<close>

theorem local_precedence_witness:
  "\<not> multiple no_options \<and>
   composites (heap precedence_world 1) (token Logger) =
     Some \<lparr>implementation = CompositeLogger, dependencies = [], scope = Transient\<rparr> \<and>
   returned (tryResolveFromCurrentContainer (Suc 0) 1 Logger {} no_options precedence_world) =
     Some (Obj 0 CompositeLogger [], {}) \<and>
   composites (heap instance_world 1) (token Logger) = None \<and>
   get_or_empty (instanceRegistrations (heap instance_world 1)) (token Logger) =
     [] @ [\<lparr>inst_value = JStr ''instance''\<rparr>] \<and>
   returned (tryResolveFromCurrentContainer (Suc (Suc 0)) 1 Logger {} no_options instance_world) =
     Some (JStr ''instance'', {}) \<and>
   composites (heap provider_world 1) (token Logger) = None \<and>
   get_or_empty (instanceRegistrations (heap provider_world 1)) (token Logger) = [] \<and>
   get_or_empty (registrations (heap provider_world 1)) (token Logger) =
     [] @ [\<lparr>implementation = ConsoleLogger, dependencies = [], scope = Transient\<rparr>] \<and>
   returned (tryResolveFromCurrentContainer (Suc (Suc (Suc 0))) 1 Logger {} no_options provider_world) =
     Some (Obj 0 ConsoleLogger [], {}) \<and>
   composites (heap factory_world 1) (token Logger) = None \<and>
   get_or_empty (instanceRegistrations (heap factory_world 1)) (token Logger) = [] \<and>
   get_or_empty (registrations (heap factory_world 1)) (token Logger) = [] \<and>
   get_or_empty (factories (heap factory_world 1)) (token Logger) =
     [] @ [\<lambda>n. Obj n FileLogger []] \<and>
   returned (tryResolveFromCurrentContainer (Suc (Suc 0)) 1 Logger {} no_options factory_world) =
     Some (Obj 0 FileLogger [], {}) \<and>
   composites (heap factory_world 1) (token OtherLogger) = None \<and>
   get_or_empty (instanceRegistrations (heap factory_world 1)) (token OtherLogger) = [] \<and>
   get_or_empty (registrations (heap factory_world 1)) (token OtherLogger) = [] \<and>
   get_or_empty (factories (heap factory_world 1)) (token OtherLogger) = [] \<and>
   token OtherLogger \<notin> {} \<and>
   returned (resolveInternal (Suc (Suc (Suc (Suc 0)))) 1 (Abstr OtherLogger) {} no_options
               factory_world) =
     Some (JStr ''root'', {})"
proof -
  note defs = precedence_world_def instance_world_def provider_world_def factory_world_def
    example_defs
  let ?comp = "\<lparr>implementation = CompositeLogger, dependencies = [], scope = Transient\<rparr>"
  let ?reg = "\<lparr>implementation = ConsoleLogger, dependencies = [], scope = Transient\<rparr>"
  have m: "\<not> multiple no_options" by (simp add: no_options_def)
  have h1: "composites (heap precedence_world 1) (token Logger) = Some ?comp"
    by (simp add: defs)
  have h2: "composites (heap instance_world 1) (token Logger) = None \<and>
      get_or_empty (instanceRegistrations (heap instance_world 1)) (token Logger) =
        [] @ [\<lparr>inst_value = JStr ''instance''\<rparr>]"
    by (simp add: defs)
  have h3: "composites (heap provider_world 1) (token Logger) = None \<and>
      get_or_empty (instanceRegistrations (heap provider_world 1)) (token Logger) = [] \<and>
      get_or_empty (registrations (heap provider_world 1)) (token Logger) = [] @ [?reg]"
    by (simp add: defs)
  have h4: "composites (heap factory_world 1) (token Logger) = None \<and>
      get_or_empty (instanceRegistrations (heap factory_world 1)) (token Logger) = [] \<and>
      get_or_empty (registrations (heap factory_world 1)) (token Logger) = [] \<and>
      get_or_empty (factories (heap factory_world 1)) (token Logger) =
        [] @ [\<lambda>n. Obj n FileLogger []]"
    by (simp add: defs)
  have h5: "composites (heap factory_world 1) (token OtherLogger) = None \<and>
      get_or_empty (instanceRegistrations (heap factory_world 1)) (token OtherLogger) = [] \<and>
      get_or_empty (registrations (heap factory_world 1)) (token OtherLogger) = [] \<and>
      get_or_empty (factories (heap factory_world 1)) (token OtherLogger) = [] \<and>
      token OtherLogger \<notin> {}"
    by (simp add: defs)
  have p: "parent (heap factory_world 1) = Some 0" by (simp add: defs)
  have n0: "next_oid factory_world = 0" by (simp add: defs)
  have e1: "returned (bind (resolveDependencies (resolveInternal 0 1) (dependencies ?comp)
                 (insert (token Logger) {}) precedence_world)
           (\<lambda>resolvedDeps st1.
              Return (Obj (next_oid st1) (implementation ?comp) resolvedDeps,
                      {} - {token Logger})
                (st1\<lparr>next_oid := Suc (next_oid st1)\<rparr>))) = Some (Obj 0 CompositeLogger [], {})"
    by (simp add: defs)
  have e2: "returned (bind (applyDecorators (Suc 0) 1 Logger
                 (inst_value \<lparr>inst_value = JStr ''instance''\<rparr>) {} instance_world)
              (\<lambda>v st1. Return (v, {}) st1)) = Some (JStr ''instance'', {})"
    by (simp add: defs)
  have e3: "returned (resolveRegistration (Suc (Suc 0)) 1 Logger ?reg {} provider_world) =
      Some (Obj 0 ConsoleLogger [], {})"
    by (simp add: defs)
  have e4: "returned (bind (applyDecorators (Suc 0) 1 Logger
                 ((\<lambda>n. Obj n FileLogger []) (next_oid factory_world)) {}
                 (factory_world\<lparr>next_oid := Suc (next_oid factory_world)\<rparr>))
              (\<lambda>v st1. Return (v, {}) st1)) = Some (Obj 0 FileLogger [], {})"
    by (simp add: defs)
  have e5: "returned (resolveInternal (Suc (Suc (Suc 0))) 0 (Abstr OtherLogger) {} no_options
               factory_world) = Some (JStr ''root'', {})"
    by (simp add: defs)
  from local_precedence[OF m, where st = precedence_world and c = 1 and a = Logger
      and composite = ?comp and n = 0 and stk = "{}"] h1
  have c1: "tryResolveFromCurrentContainer (Suc 0) 1 Logger {} no_options precedence_world =
      bind (resolveDependencies (resolveInternal 0 1) (dependencies ?comp)
                 (insert (token Logger) {}) precedence_world)
           (\<lambda>resolvedDeps st1.
              Return (Obj (next_oid st1) (implementation ?comp) resolvedDeps,
                      {} - {token Logger})
                (st1\<lparr>next_oid := Suc (next_oid st1)\<rparr>))"
    by blast
  from local_precedence[OF m, where st = instance_world and c = 1 and a = Logger
      and earlier = "[]" and i = "\<lparr>inst_value = JStr ''instance''\<rparr>" and n = "Suc 0"
      and stk = "{}"] h2
  have c2: "tryResolveFromCurrentContainer (Suc (Suc 0)) 1 Logger {} no_options instance_world =
      bind (applyDecorators (Suc 0) 1 Logger
                 (inst_value \<lparr>inst_value = JStr ''instance''\<rparr>) {} instance_world)
              (\<lambda>v st1. Return (v, {}) st1)"
    by blast
  from local_precedence[OF m, where st = provider_world and c = 1 and a = Logger
      and previous = "[]" and r = ?reg and n = "Suc (Suc 0)" and stk = "{}"] h3
  have c3: "tryResolveFromCurrentContainer (Suc (Suc (Suc 0))) 1 Logger {} no_options
              provider_world =
      resolveRegistration (Suc (Suc 0)) 1 Logger ?reg {} provider_world"
    by blast
  from local_precedence[OF m, where st = factory_world and c = 1 and a = Logger
      and older = "[]" and f = "\<lambda>n. Obj n FileLogger []" and n = "Suc 0" and stk = "{}"] h4
  have c4: "tryResolveFromCurrentContainer (Suc (Suc 0)) 1 Logger {} no_options factory_world =
      bind (applyDecorators (Suc 0) 1 Logger
                 ((\<lambda>n. Obj n FileLogger []) (next_oid factory_world)) {}
                 (factory_world\<lparr>next_oid := Suc (next_oid factory_world)\<rparr>))
              (\<lambda>v st1. Return (v, {}) st1)"
    by blast
  from local_precedence[OF m, where st = factory_world and c = 1 and a = OtherLogger
      and n = "Suc (Suc 0)" and stk = "{}"] h5 p
  have c5: "resolveInternal (Suc (Suc (Suc (Suc 0)))) 1 (Abstr OtherLogger) {} no_options
               factory_world =
      resolveInternal (Suc (Suc (Suc 0))) 0 (Abstr OtherLogger) {} no_options factory_world"
    by simp
  show ?thesis
    unfolding c1 c2 c3 c4 c5 using m h1 h2 h3 h4 h5 e1 e2 e3 e4 e5 by simp
qed

section \<open>Resolution without a registration\<close>

lemma no_local_match:
  assumes "\<not> multiple opts" and "token a \<notin> stk" and "unregistered (heap st c) a"
  shows "resolveInternal (Suc (Suc n)) c (Abstr a) stk opts st =
     (case parent (heap st c) of
        Some p \<Rightarrow> resolveInternal (Suc n) p (Abstr a) stk opts st
      | None \<Rightarrow>
          if optional opts then Return (Undefined, stk) st
          else Throw (NoRegistrationFound (toString a)) st)"
  using assms
  by (auto simp: unregistered_def get_or_empty_def split: option.splits)

text \<open>
  Claim C8, as amended. When the contract is not on the resolution stack and neither the
  container nor any of its ancestors holds a composite, instance, provider or factory
  record for it, a single (non-multiple) resolution, given a budget of one call per
  container of the chain and one more, returns \<open>undefined\<close> in the unchanged state if the
  request is optional, and otherwise throws the "no registration found" error that names
  the contract.
\<close>

theorem no_registration_found:
  assumes "ancestor_chain st c ps" and "\<forall>k \<in> set (c # ps). unregistered (heap st k) a"
    and "\<not> multiple opts" and "token a \<notin> stk" and "Suc (length (c # ps)) \<le> n"
  shows "resolveInternal n c (Abstr a) stk opts st =
     (if optional opts then Return (Undefined, stk) st
      else Throw (NoRegistrationFound (toString a)) st)"
  using assms
proof (induction ps arbitrary: c n)
  case Nil
  then obtain m where n: "n = Suc (Suc m)"
    by (cases n; cases "n - 1") auto
  from Nil have u: "unregistered (heap st c) a" and par: "parent (heap st c) = None"
    by simp_all
  show ?case
    unfolding n no_local_match[OF Nil.prems(3,4) u] by (simp only: par option.case)
next
  case (Cons p ps)
  from Cons.prems(5) obtain m where n: "n = Suc (Suc m)" and m: "Suc (length (p # ps)) \<le> Suc m"
    by (cases n; cases "n - 1") auto
  from Cons.prems have u: "unregistered (heap st c) a" and par: "parent (heap st c) = Some p"
    and ch: "ancestor_chain st p ps" and rest: "\<forall>k \<in> set (p # ps). unregistered (heap st k) a"
    by simp_all
  have ih: "resolveInternal (Suc m) p (Abstr a) stk opts st =
     (if optional opts then Return (Undefined, stk) st
      else Throw (NoRegistrationFound (toString a)) st)"
    by (rule Cons.IH[OF ch rest Cons.prems(3,4) m])
  show ?case
    unfolding n no_local_match[OF Cons.prems(3,4) u] by (simp only: par option.case ih)
qed

text \<open>
  The claim as stated fails when the contract is already on the resolution stack: the
  cycle check comes first. In \<open>optional_cycle_world\<close> the child's provider of \<open>Logger\<close>
  needs \<open>Formatter\<close>, which the root provides with an optional dependency on \<open>Logger\<close>.
  The root has no record of \<open>Logger\<close>, the request is optional, and yet the resolution
  throws the circular-dependency error.
\<close>

theorem no_registration_found_counterexample:
  "ancestor_chain optional_cycle_world 0 [] \<and>
   unregistered (heap optional_cycle_world 0) Logger \<and>
   \<not> multiple optional_true \<and> optional optional_true \<and>
   resolveInternal 2 0 (Abstr Logger) {token Logger, token Formatter} optional_true
       optional_cycle_world =
     Throw (CircularDependency ''Logger'') optional_cycle_world \<and>
   resolve 8 1 Logger optional_cycle_world =
     Throw (CircularDependency ''Logger'') optional_cycle_world"
  by (simp add: unregistered_def optional_cycle_world_def example_defs numeral_nat Let_def)

text \<open>A child and a root that know \<open>Logger\<close> only, asked for \<open>OtherLogger\<close>.\<close>

theorem no_registration_found_witness:
  "ancestor_chain decorator_world 1 [0] \<and>
   unregistered (heap decorator_world 1) OtherLogger \<and>
   unregistered (heap decorator_world 0) OtherLogger \<and>
   \<not> multiple no_options \<and> \<not> multiple optional_true \<and> token OtherLogger \<notin> {} \<and>
   Suc (length [1, 0 :: nat]) \<le> (3 :: nat) \<and>
   resolveInternal 3 1 (Abstr OtherLogger) {} no_options decorator_world =
     Throw (NoRegistrationFound ''Logger'') decorator_world \<and>
   resolveInternal 3 1 (Abstr OtherLogger) {} optional_true decorator_world =
     Return (Undefined, {}) decorator_world"
proof -
  have h1: "ancestor_chain decorator_world 1 [0]"
    by (simp add: decorator_world_def example_defs)
  have h2: "\<forall>k \<in> set [1, 0]. unregistered (heap decorator_world k) OtherLogger"
    by (simp add: unregistered_def decorator_world_def example_defs)
  have h3: "\<not> multiple no_options" "\<not> multiple optional_true"
    by (simp_all add: example_defs)
  have h4: "token OtherLogger \<notin> {}" by simp
  have h5: "Suc (length [1, 0 :: nat]) \<le> (3 :: nat)" by simp
  have o: "\<not> optional no_options" "optional optional_true"
    by (simp_all add: example_defs)
  have t: "toString OtherLogger = ''Logger''"
    by (simp add: example_defs)
  show ?thesis
    using h1 h2 h3 h4 h5 o t
      no_registration_found[OF h1 h2 h3(1) h4 h5]
      no_registration_found[OF h1 h2 h3(2) h4 h5]
    by simp
qed

section \<open>Collection of all records\<close>

lemma nothing_collected_local:
  assumes "get_or_empty (instanceRegistrations (heap st c)) (token a) = []"
    and "get_or_empty (registrations (heap st c)) (token a) = []"
    and "get_or_empty (factories (heap st c)) (token a) = []"
  shows "resolveMultiple (Suc n) c a stk st =
     (case parent (heap st c) of
        Some p \<Rightarrow> resolveMultiple n p a stk st
      | None \<Rightarrow> Return ([], stk) st)"
proof (cases "parent (heap st c)")
  case None
  with assms show ?thesis by simp
next
  case (Some p)
  show ?thesis
  proof (cases "resolveMultiple n p a stk st")
    case (Return r st1)
    from unchanged_resolveMultiple[of st n p a stk] Return
    have s: "static st1 = static st" by simp
    from assms static_fields(1,3,4)[OF s, of c] Some Return show ?thesis
      by simp
  next
    case (Throw e st1)
    with Some show ?thesis by simp
  next
    case OutOfFuel
    with Some show ?thesis by simp
  qed
qed

text \<open>
  Claim C9. When no container of the ancestor chain holds an instance, provider or factory
  record for the contract, \<open>resolveMultiple\<close> (hence \<open>resolveAll\<close>, and \<open>resolveInternal\<close>
  for a request with \<open>multiple\<close>, whatever its \<open>optional\<close> flag and whatever the stack)
  returns the empty list in the unchanged state, given a budget of one call per container
  of the chain. Composite and decorator records do not matter.
\<close>

theorem resolveAll_empty:
  assumes "ancestor_chain st c ps"
    and "\<forall>k \<in> set (c # ps). record_count (heap st k) a = 0"
    and "length (c # ps) \<le> n"
  shows "resolveMultiple n c a stk st = Return ([], stk) st \<and>
         resolveAll n c a st = Return [] st \<and>
         (multiple opts \<longrightarrow>
            resolveInternal (Suc (Suc n)) c (Abstr a) stk opts st = Return (Arr [], stk) st)"
proof -
  have m: "resolveMultiple n c a stk st = Return ([], stk) st" for stk
    using assms
  proof (induction ps arbitrary: c n)
    case Nil
    then obtain m where n: "n = Suc m" by (cases n) auto
    from Nil have "parent (heap st c) = None" and "record_count (heap st c) a = 0" by simp_all
    then show ?case
      unfolding n by (subst nothing_collected_local) (simp_all add: record_count_def)
  next
    case (Cons p ps)
    then obtain m where n: "n = Suc m" and m: "length (p # ps) \<le> m" by (cases n) auto
    from Cons.prems have par: "parent (heap st c) = Some p" and ch: "ancestor_chain st p ps"
      and z: "record_count (heap st c) a = 0"
      and rest: "\<forall>k \<in> set (p # ps). record_count (heap st k) a = 0"
      by simp_all
    have ih: "resolveMultiple m p a stk st = Return ([], stk) st"
      by (rule Cons.IH[OF ch rest m])
    from z show ?case
      unfolding n
      by (subst nothing_collected_local) (simp_all add: record_count_def par ih)
  qed
  show ?thesis
    by (simp add: m resolveAll_def)
qed


text \<open>A root with a composite and a decorator of \<open>Logger\<close> but no provider, and its
  child.\<close>

theorem resolveAll_empty_witness:
  "ancestor_chain composite_only_world 1 [0] \<and>
   record_count (heap composite_only_world 1) Logger = 0 \<and>
   record_count (heap composite_only_world 0) Logger = 0 \<and>
   length [1, 0 :: nat] \<le> (2 :: nat) \<and>
   composites (heap composite_only_world 0) (token Logger) \<noteq> None \<and>
   resolveMultiple 2 1 Logger {token Logger} composite_only_world =
     Return ([], {token Logger}) composite_only_world \<and>
   resolveAll 2 1 Logger composite_only_world = Return [] composite_only_world \<and>
   multiple multiple_true \<and> \<not> optional multiple_true \<and>
   resolveInternal (Suc (Suc 2)) 1 (Abstr Logger) {token Logger} multiple_true
       composite_only_world =
     Return (Arr [], {token Logger}) composite_only_world"
proof -
  have h1: "ancestor_chain composite_only_world 1 [0]"
    by (simp add: composite_only_world_def example_defs)
  have h2: "\<forall>k \<in> set [1, 0]. record_count (heap composite_only_world k) Logger = 0"
    by (simp add: record_count_def composite_only_world_def example_defs)
  have h3: "length [1, 0 :: nat] \<le> (2 :: nat)" by simp
  have c: "composites (heap composite_only_world 0) (token Logger) \<noteq> None"
    by (simp add: composite_only_world_def example_defs)
  have m: "multiple multiple_true" "\<not> optional multiple_true"
    by (simp_all add: example_defs)
  show ?thesis
    using h1 h2 h3 c m
      resolveAll_empty[OF h1 h2 h3, of "{token Logger}" multiple_true]
    by simp
qed

lemma mapM_stack_all2:
  assumes "mapM_stack f xs stk st = Return (ys, stk') st'"
  shows "list_all2 (\<lambda>x y. \<exists>stk1 st1 stk2 st2. f x stk1 st1 = Return (y, stk2) st2) xs ys"
  using assms
proof (induction xs arbitrary: stk st ys stk' st')
  case Nil
  then show ?case by simp
next
  case (Cons x xs)
  from Cons.prems obtain r st1 rs st2 where
    fx: "f x stk st = Return r st1" and
    rest: "mapM_stack f xs (snd r) st1 = Return rs st2" and
    ys: "ys = fst r # fst rs"
    by (auto simp: bind_Return_iff)
  from rest have "mapM_stack f xs (snd r) st1 = Return (fst rs, snd rs) st2" by simp
  from Cons.IH[OF this]
  have "list_all2 (\<lambda>x y. \<exists>stk1 st1 stk2 st2. f x stk1 st1 = Return (y, stk2) st2) xs (fst rs)" .
  moreover from fx have "f x stk st = Return (fst r, snd r) st1" by simp
  ultimately show ?case unfolding ys by (simp del: prod.collapse) blast
qed

lemma resolveMultiple_parts:
  assumes "resolveMultiple (Suc n) c a stk st = Return (vs, stk') st'"
  obtains fromParent stk1 st1 fromInstances stk2 st2 fromRegistrations stk3 st3 fromFactories
  where "(case parent (heap st c) of
            Some p \<Rightarrow> resolveMultiple n p a stk st
          | None \<Rightarrow> Return ([], stk) st) = Return (fromParent, stk1) st1"
    and "mapM_stack
           (\<lambda>instanceReg stk1 st2.
              bind (applyDecorators n c a (inst_value instanceReg) stk1 st2)
                (\<lambda>decorated st3. Return (decorated, stk1) st3))
           (get_or_empty (instanceRegistrations (heap st c)) (token a)) stk1 st1 =
         Return (fromInstances, stk2) st2"
    and "mapM_stack (\<lambda>registration stk1 st3. resolveRegistration n c a registration stk1 st3)
           (get_or_empty (registrations (heap st c)) (token a)) stk2 st2 =
         Return (fromRegistrations, stk3) st3"
    and "mapM_stack
           (\<lambda>factory' stk1 st4.
              bind (call_factory factory' st4) (\<lambda>instance' st5.
                bind (applyDecorators n c a instance' stk1 st5)
                  (\<lambda>decorated st6. Return (decorated, stk1) st6)))
           (get_or_empty (factories (heap st c)) (token a)) stk3 st3 =
         Return (fromFactories, stk') st'"
    and "vs = fromParent @ fromInstances @ fromRegistrations @ fromFactories"
proof -
  let ?P = "case parent (heap st c) of
            Some p \<Rightarrow> resolveMultiple n p a stk st
          | None \<Rightarrow> Return ([], stk) st"
  from assms obtain fp st1 where p: "?P = Return fp st1"
    by (auto simp: bind_Return_iff)
  have "unchanged st ?P"
    by (auto split: option.splits intro: unchanged_resolveMultiple)
  with p have s: "static st1 = static st" by simp
  note f = static_fields(1,3,4)[OF s, of c]
  from assms p obtain fi st2 fr st3 ff where
    "mapM_stack
           (\<lambda>instanceReg stk1 st2.
              bind (applyDecorators n c a (inst_value instanceReg) stk1 st2)
                (\<lambda>decorated st3. Return (decorated, stk1) st3))
           (get_or_empty (instanceRegistrations (heap st c)) (token a)) (snd fp) st1 =
         Return fi st2"
    "mapM_stack (\<lambda>registration stk1 st3. resolveRegistration n c a registration stk1 st3)
           (get_or_empty (registrations (heap st c)) (token a)) (snd fi) st2 =
         Return fr st3"
    "mapM_stack
           (\<lambda>factory' stk1 st4.
              bind (call_factory factory' st4) (\<lambda>instance' st5.
                bind (applyDecorators n c a instance' stk1 st5)
                  (\<lambda>decorated st6. Return (decorated, stk1) st6)))
           (get_or_empty (factories (heap st c)) (token a)) (snd fr) st3 =
         Return ff st'"
    "vs = fst fp @ fst fi @ fst fr @ fst ff" "stk' = snd ff"
    by (auto simp: bind_Return_iff Let_def f get_or_empty_def)
  with p show thesis
    by (intro that[of "fst fp" "snd fp" st1 "fst fi" "snd fi" st2 "fst fr" "snd fr" st3 "fst ff"])
       simp_all
qed


lemma mapM_stack_length:
  assumes "mapM_stack f xs stk st = Return (ys, stk') st'"
  shows "length ys = length xs"
  using mapM_stack_all2[OF assms] by (simp add: list_all2_lengthD)

lemma resolveMultiple_length:
  assumes "resolveMultiple n c a stk st = Return (vs, stk') st'"
    and "ancestor_chain st c ps"
  shows "length vs = sum_list (map (\<lambda>k. record_count (heap st k) a) (c # ps))"
  using assms
proof (induction n arbitrary: c stk st vs stk' st' ps)
  case 0
  then show ?case by simp
next
  case (Suc n)
  from Suc.prems(1) obtain fromParent stk1 st1 fromInstances stk2 st2
      fromRegistrations stk3 st3 fromFactories
    where par: "(case parent (heap st c) of
            Some p \<Rightarrow> resolveMultiple n p a stk st
          | None \<Rightarrow> Return ([], stk) st) = Return (fromParent, stk1) st1"
      and i0: "mapM_stack
           (\<lambda>instanceReg stk1 st2.
              bind (applyDecorators n c a (inst_value instanceReg) stk1 st2)
                (\<lambda>decorated st3. Return (decorated, stk1) st3))
           (get_or_empty (instanceRegistrations (heap st c)) (token a)) stk1 st1 =
         Return (fromInstances, stk2) st2"
      and r0: "mapM_stack (\<lambda>registration stk1 st3. resolveRegistration n c a registration stk1 st3)
           (get_or_empty (registrations (heap st c)) (token a)) stk2 st2 =
         Return (fromRegistrations, stk3) st3"
      and f0: "mapM_stack
           (\<lambda>factory' stk1 st4.
              bind (call_factory factory' st4) (\<lambda>instance' st5.
                bind (applyDecorators n c a instance' stk1 st5)
                  (\<lambda>decorated st6. Return (decorated, stk1) st6)))
           (get_or_empty (factories (heap st c)) (token a)) stk3 st3 =
         Return (fromFactories, stk') st'"
      and vs: "vs = fromParent @ fromInstances @ fromRegistrations @ fromFactories"
    by (rule resolveMultiple_parts)
  note i = mapM_stack_length[OF i0] and r = mapM_stack_length[OF r0]
    and f = mapM_stack_length[OF f0]
  have "length fromParent = sum_list (map (\<lambda>k. record_count (heap st k) a) ps)"
  proof (cases ps)
    case Nil
    with Suc.prems(2) par show ?thesis by simp
  next
    case (Cons p ps')
    with Suc.prems(2) have pp: "parent (heap st c) = Some p" and ch: "ancestor_chain st p ps'"
      by simp_all
    from par pp have "resolveMultiple n p a stk st = Return (fromParent, stk1) st1" by simp
    from Suc.IH[OF this ch] Cons show ?thesis by simp
  qed
  with i r f vs show ?case by (simp add: record_count_def)
qed

text \<open>\<open>resolveAll\<close> and a request with \<open>multiple\<close> return what \<open>resolveMultiple\<close> returns.\<close>

lemma resolveAll_Return_iff:
  "resolveAll n c a st = Return vs st' \<longleftrightarrow>
     (\<exists>stk'. resolveMultiple n c a {} st = Return (vs, stk') st')"
  by (auto simp: resolveAll_def bind_Return_iff)

lemma multiple_request_Return_iff:
  assumes "multiple opts"
  shows "resolveInternal (Suc (Suc n)) c (Abstr a) stk opts st = Return r st' \<longleftrightarrow>
     (\<exists>vs stk'. r = (Arr vs, stk') \<and> resolveMultiple n c a stk st = Return (vs, stk') st')"
  using assms by (cases "resolveMultiple n c a stk st") auto

lemma static_spec_decorate [simp]: "static (snd (spec_decorate ds v st)) = static st"
  by (induction ds arbitrary: v st) simp_all

lemma heap_spec_decorate [simp]: "heap (snd (spec_decorate ds v st)) = heap st"
  by (induction ds arbitrary: v st) simp_all

lemma foldM_decorate_spec:
  assumes "list_all (\<lambda>d. decorator_dependencies d = []) ds"
  shows "foldM (decorate ri stk) ds v st =
         Return (fst (spec_decorate ds v st)) (snd (spec_decorate ds v st))"
  using assms
  by (induction ds arbitrary: v st)
     (simp_all add: decorate_def resolveDependencies_def new_object_def)

lemma applyDecorators_spec:
  assumes "get_or_empty (decorators (heap st c)) (token a) = ds"
    and "list_all (\<lambda>d. decorator_dependencies d = []) ds"
  shows "applyDecorators (Suc m) c a v stk st =
         Return (fst (spec_decorate ds v st)) (snd (spec_decorate ds v st))"
  using assms by (simp add: foldM_decorate_spec)

lemma static_spec_construct [simp]: "static (snd (spec_construct c a ds r st)) = static st"
  by (simp add: spec_construct_def split: prod.splits)
     (metis snd_conv static_alloc static_spec_decorate)

lemma static_spec_provider [simp]: "static (snd (spec_provider c a ds r st)) = static st"
  by (simp add: spec_provider_def split: option.splits)

lemma static_spec_instance [simp]: "static (snd (spec_instance ds i st)) = static st"
  by (simp add: spec_instance_def)

lemma static_spec_factory [simp]: "static (snd (spec_factory ds f st)) = static st"
  by (simp add: spec_factory_def)

lemma resolveRegistration_spec:
  assumes "get_or_empty (decorators (heap st c)) (token a) = ds"
    and "list_all (\<lambda>d. decorator_dependencies d = []) ds"
    and "dependencies r = []"
  shows "\<exists>stk'. resolveRegistration (Suc (Suc m)) c a r stk st =
           Return (fst (spec_provider c a ds r st), stk') (snd (spec_provider c a ds r st))"
proof -
  let ?st1 = "st\<lparr>next_oid := Suc (next_oid st)\<rparr>"
  let ?inst = "Obj (next_oid st) (implementation r) []"
  have d: "get_or_empty (decorators (heap ?st1 c)) (token a) = ds"
    using assms(1) by simp
  have ad: "applyDecorators (Suc m) c a ?inst (insert (token a) stk) ?st1 =
      Return (fst (spec_decorate ds ?inst ?st1)) (snd (spec_decorate ds ?inst ?st1))"
    by (rule applyDecorators_spec[OF d assms(2)])
  show ?thesis
    using assms(3)
    by (auto simp add: spec_provider_def spec_construct_def resolveDependencies_def
          new_object_def ad split: option.splits prod.splits
          simp del: applyDecorators.simps)
qed


lemma static_spec_each:
  assumes "\<And>x st. static (snd (g x st)) = static st"
  shows "static (snd (spec_each g xs st)) = static st"
proof (induction xs arbitrary: st)
  case Nil
  show ?case by simp
next
  case (Cons x xs)
  obtain v st1 where f: "g x st = (v, st1)" by (cases "g x st")
  obtain vs st2 where r: "spec_each g xs st1 = (vs, st2)" by (cases "spec_each g xs st1")
  from assms[of x st] f have "static st1 = static st" by simp
  moreover from Cons.IH[of st1] r have "static st2 = static st1" by simp
  ultimately show ?case using f r by simp
qed

lemma mapM_stack_spec:
  assumes step: "\<And>x stk st. x \<in> set xs \<Longrightarrow> static st = S \<Longrightarrow>
            \<exists>stk'. f x stk st = Return (fst (g x st), stk') (snd (g x st))"
    and pres: "\<And>x st. static (snd (g x st)) = static st"
    and "static st = S"
  shows "\<exists>stk'. mapM_stack f xs stk st =
           Return (fst (spec_each g xs st), stk') (snd (spec_each g xs st))"
  using step assms(3)
proof (induction xs arbitrary: stk st)
  case Nil
  show ?case by simp
next
  case (Cons x xs)
  obtain v st1 where g: "g x st = (v, st1)" by (cases "g x st")
  obtain vs st2 where r: "spec_each g xs st1 = (vs, st2)" by (cases "spec_each g xs st1")
  from Cons.prems(1)[of x st stk] Cons.prems(2) g obtain stk1 where
    1: "f x stk st = Return (v, stk1) st1" by auto
  from pres[of x st] g Cons.prems(2) have s1: "static st1 = S" by simp
  have "\<exists>stk'. mapM_stack f xs stk1 st1 =
           Return (fst (spec_each g xs st1), stk') (snd (spec_each g xs st1))"
    by (rule Cons.IH[OF _ s1]) (rule Cons.prems(1), simp_all)
  with r obtain stk2 where 2: "mapM_stack f xs stk1 st1 = Return (vs, stk2) st2" by auto
  from 1 2 g r show ?case by simp
qed

lemma spec_local_static [simp]: "static (snd (spec_local a c st)) = static st"
proof -
  let ?ds = "get_or_empty (decorators (heap st c)) (token a)"
  obtain ivs st1 where 1: "spec_each (spec_instance ?ds)
             (get_or_empty (instanceRegistrations (heap st c)) (token a)) st = (ivs, st1)"
    by (cases "spec_each (spec_instance ?ds)
             (get_or_empty (instanceRegistrations (heap st c)) (token a)) st")
  obtain rs st2 where 2: "spec_each (spec_provider c a ?ds)
             (get_or_empty (registrations (heap st c)) (token a)) st1 = (rs, st2)"
    by (cases "spec_each (spec_provider c a ?ds)
             (get_or_empty (registrations (heap st c)) (token a)) st1")
  obtain fs st3 where 3: "spec_each (spec_factory ?ds)
             (get_or_empty (factories (heap st c)) (token a)) st2 = (fs, st3)"
    by (cases "spec_each (spec_factory ?ds)
             (get_or_empty (factories (heap st c)) (token a)) st2")
  have "static st1 = static st"
    using static_spec_each[of "spec_instance ?ds", OF static_spec_instance] 1
    by (metis snd_conv)
  moreover have "static st2 = static st1"
    using static_spec_each[of "spec_provider c a ?ds", OF static_spec_provider] 2
    by (metis snd_conv)
  moreover have "static st3 = static st2"
    using static_spec_each[of "spec_factory ?ds", OF static_spec_factory] 3
    by (metis snd_conv)
  ultimately show ?thesis
    using 1 2 3 by (simp add: spec_local_def Let_def)
qed

lemma resolveMultiple_local_spec:
  assumes par: "(case parent (heap st c) of
                   Some p \<Rightarrow> resolveMultiple (Suc (Suc m)) p a stk st
                 | None \<Rightarrow> Return ([], stk) st) = Return (fp, stk1) st1"
    and wd: "without_dependencies (heap st1 c) a"
  shows "\<exists>stk'. resolveMultiple (Suc (Suc (Suc m))) c a stk st =
           Return (fp @ fst (spec_local a c st1), stk') (snd (spec_local a c st1))"
proof -
  let ?ds = "get_or_empty (decorators (heap st1 c)) (token a)"
  let ?irs = "get_or_empty (instanceRegistrations (heap st1 c)) (token a)"
  let ?regs = "get_or_empty (registrations (heap st1 c)) (token a)"
  let ?facs = "get_or_empty (factories (heap st1 c)) (token a)"
  let ?fi = "\<lambda>instanceReg stk1 st2.
               bind (applyDecorators (Suc (Suc m)) c a (inst_value instanceReg) stk1 st2)
                 (\<lambda>decorated st3. Return (decorated, stk1) st3)"
  let ?fr = "\<lambda>registration stk1 st3.
               resolveRegistration (Suc (Suc m)) c a registration stk1 st3"
  let ?ff = "\<lambda>factory' stk1 st4.
               bind (call_factory factory' st4) (\<lambda>instance' st5.
                 bind (applyDecorators (Suc (Suc m)) c a instance' stk1 st5)
                   (\<lambda>decorated st6. Return (decorated, stk1) st6))"
  from wd have dd: "list_all (\<lambda>d. decorator_dependencies d = []) ?ds"
    and rd: "list_all (\<lambda>r. dependencies r = []) ?regs"
    by (simp_all add: without_dependencies_def)
  have decs: "get_or_empty (decorators (heap s c)) (token a) = ?ds" if "static s = static st1" for s
    by (simp add: static_fields(2)[OF that])
  obtain ivs st2 where 1: "spec_each (spec_instance ?ds) ?irs st1 = (ivs, st2)"
    by (cases "spec_each (spec_instance ?ds) ?irs st1")
  obtain rs st3 where 2: "spec_each (spec_provider c a ?ds) ?regs st2 = (rs, st3)"
    by (cases "spec_each (spec_provider c a ?ds) ?regs st2")
  obtain fs st4 where 3: "spec_each (spec_factory ?ds) ?facs st3 = (fs, st4)"
    by (cases "spec_each (spec_factory ?ds) ?facs st3")
  have s2: "static st2 = static st1"
    using static_spec_each[of "spec_instance ?ds", OF static_spec_instance] 1
    by (metis snd_conv)
  have s3: "static st3 = static st1"
    using static_spec_each[of "spec_provider c a ?ds", OF static_spec_provider] 2 s2
    by (metis snd_conv)
  have "\<exists>stk'. mapM_stack ?fi ?irs stk1 st1 =
           Return (fst (spec_each (spec_instance ?ds) ?irs st1), stk')
             (snd (spec_each (spec_instance ?ds) ?irs st1))"
  proof (rule mapM_stack_spec[where S = "static st1"])
    fix x stk s assume "static s = static st1"
    from applyDecorators_spec[OF decs[OF this] dd]
    show "\<exists>stk'. ?fi x stk s =
            Return (fst (spec_instance ?ds x s), stk') (snd (spec_instance ?ds x s))"
      by (simp add: spec_instance_def del: applyDecorators.simps)
  qed simp_all
  with 1 obtain stk2 where l1: "mapM_stack ?fi ?irs stk1 st1 = Return (ivs, stk2) st2"
    by auto
  have "\<exists>stk'. mapM_stack ?fr ?regs stk2 st2 =
           Return (fst (spec_each (spec_provider c a ?ds) ?regs st2), stk')
             (snd (spec_each (spec_provider c a ?ds) ?regs st2))"
  proof (rule mapM_stack_spec[where S = "static st1"])
    fix x stk s assume x: "x \<in> set ?regs" and s: "static s = static st1"
    from rd x have "dependencies x = []" by (simp add: list_all_iff)
    from resolveRegistration_spec[OF decs[OF s] dd this]
    show "\<exists>stk'. ?fr x stk s =
            Return (fst (spec_provider c a ?ds x s), stk') (snd (spec_provider c a ?ds x s))" .
  qed (simp_all add: s2)
  with 2 obtain stk3 where l2: "mapM_stack ?fr ?regs stk2 st2 = Return (rs, stk3) st3"
    by auto
  have "\<exists>stk'. mapM_stack ?ff ?facs stk3 st3 =
           Return (fst (spec_each (spec_factory ?ds) ?facs st3), stk')
             (snd (spec_each (spec_factory ?ds) ?facs st3))"
  proof (rule mapM_stack_spec[where S = "static st1"])
    fix x stk s assume s: "static s = static st1"
    have "static (s\<lparr>next_oid := Suc (next_oid s)\<rparr>) = static st1" using s by simp
    from applyDecorators_spec[OF decs[OF this] dd]
    show "\<exists>stk'. ?ff x stk s =
            Return (fst (spec_factory ?ds x s), stk') (snd (spec_factory ?ds x s))"
      by (simp add: spec_factory_def call_factory_def del: applyDecorators.simps)
  qed (simp_all add: s3)
  with 3 obtain stk4 where l3: "mapM_stack ?ff ?facs stk3 st3 = Return (fs, stk4) st4"
    by auto
  have loc: "spec_local a c st1 = (ivs @ rs @ fs, st4)"
    using 1 2 3 by (simp add: spec_local_def Let_def)
  have "resolveMultiple (Suc (Suc (Suc m))) c a stk st =
          Return (fp @ ivs @ rs @ fs, stk4) st4"
    using par l1 l2 l3
    by (simp add: Let_def del: applyDecorators.simps resolveRegistration.simps
          resolveMultiple.simps(1) split: option.splits)
  with loc show ?thesis by simp
qed


lemma resolveMultiple_spec:
  assumes "ancestor_chain st c ps"
    and "\<forall>k \<in> set (c # ps). without_dependencies (heap st k) a"
    and "length (c # ps) + 2 \<le> n"
  shows "\<exists>stk'. resolveMultiple n c a stk st =
           Return (fst (spec_collect a (c # ps) st), stk') (snd (spec_collect a (c # ps) st))"
  using assms
proof (induction ps arbitrary: c n)
  case Nil
  then obtain m where n: "n = Suc (Suc (Suc m))"
    by (cases n; cases "n - 1"; cases "n - 2") auto
  from Nil have par: "(case parent (heap st c) of
                   Some p \<Rightarrow> resolveMultiple (Suc (Suc m)) p a stk st
                 | None \<Rightarrow> Return ([], stk) st) = Return ([], stk) st"
    and wd: "without_dependencies (heap st c) a"
    by simp_all
  from resolveMultiple_local_spec[OF par wd] show ?case
    unfolding n by (simp add: split_beta)
next
  case (Cons p ps)
  from Cons.prems(3) obtain m where n: "n = Suc (Suc (Suc m))"
    and m: "length (p # ps) + 2 \<le> Suc (Suc m)"
    by (cases n; cases "n - 1"; cases "n - 2") auto
  from Cons.prems have pp: "parent (heap st c) = Some p" and ch: "ancestor_chain st p ps"
    and wd: "without_dependencies (heap st c) a"
    and rest: "\<forall>k \<in> set (p # ps). without_dependencies (heap st k) a"
    by simp_all
  from Cons.IH[OF ch rest m] obtain stk1 where
    ih: "resolveMultiple (Suc (Suc m)) p a stk st =
           Return (fst (spec_collect a (p # ps) st), stk1) (snd (spec_collect a (p # ps) st))"
    by blast
  let ?st1 = "snd (spec_collect a (p # ps) st)"
  from unchanged_resolveMultiple[of st "Suc (Suc m)" p a stk] ih
  have s: "static ?st1 = static st" by simp
  have wd1: "without_dependencies (heap ?st1 c) a"
    using wd unfolding without_dependencies_def static_fields(1)[OF s] static_fields(2)[OF s] .
  have par: "(case parent (heap st c) of
                   Some p \<Rightarrow> resolveMultiple (Suc (Suc m)) p a stk st
                 | None \<Rightarrow> Return ([], stk) st) =
             Return (fst (spec_collect a (p # ps) st), stk1) ?st1"
    using pp ih by simp
  from resolveMultiple_local_spec[OF par wd1] show ?case
    unfolding n by (simp add: split_beta)
qed



lemmas spec_defs = spec_local_def spec_instance_def spec_provider_def spec_construct_def
  spec_factory_def


section \<open>Singleton scope\<close>

lemma foldM_invariant:
  assumes "foldM f xs r st = Return v st'"
    and "P r"
    and "\<And>x r st r' st'. f x r st = Return r' st' \<Longrightarrow> P r'"
  shows "P v"
  using assms(1,2)
proof (induction xs arbitrary: r st)
  case Nil
  then show ?case by simp
next
  case (Cons x xs)
  from Cons.prems(1) obtain r1 st1 where
    1: "f x r st = Return r1 st1" and 2: "foldM f xs r1 st1 = Return v st'"
    by (auto simp: bind_Return_iff)
  from assms(3)[OF 1] have "P r1" .
  from Cons.IH[OF 2 this] show ?case .
qed

lemma truthy_decorate:
  assumes "decorate ri stk d r st = Return r' st'"
  shows "truthy r'"
  using assms by (auto simp: decorate_def new_object_def bind_Return_iff)

lemma truthy_applyDecorators:
  assumes "applyDecorators n c a v stk st = Return v' st'" and "truthy v"
  shows "truthy v'"
proof (cases n)
  case 0
  with assms show ?thesis by simp
next
  case (Suc m)
  with assms(1) have "foldM (decorate (resolveInternal m c) stk)
       (get_or_empty (decorators (heap st c)) (token a)) v st = Return v' st'"
    by simp
  from this assms(2) show ?thesis
    by (rule foldM_invariant) (rule truthy_decorate)
qed

lemma singleton_cached:
  assumes "resolveRegistration n c a r stk st = Return (v, stk') st'"
    and "scope r = Singleton"
  shows "instances (heap st' c) (instanceKey a r) = Some v \<and> truthy v"
proof (cases n)
  case 0
  with assms show ?thesis by simp
next
  case (Suc m)
  show ?thesis
  proof (cases "instances (heap st c) (instanceKey a r)")
    case None
    with assms Suc obtain resolvedDeps st1 st3 where
      d: "applyDecorators m c a (Obj (next_oid st1) (implementation r) resolvedDeps)
            (insert (token a) stk) (st1\<lparr>next_oid := Suc (next_oid st1)\<rparr>) = Return v st3"
      and s: "st' = instances_set c (instanceKey a r) v st3"
      by (auto simp: bind_Return_iff new_object_def)
    from truthy_applyDecorators[OF d] s show ?thesis
      by (simp add: instances_set_def update_container_def)
  next
    case (Some existing)
    show ?thesis
    proof (cases "truthy existing")
      case True
      with assms Suc Some show ?thesis by simp
    next
      case False
      with assms Suc Some obtain resolvedDeps st1 st3 where
        d: "applyDecorators m c a (Obj (next_oid st1) (implementation r) resolvedDeps)
              (insert (token a) stk) (st1\<lparr>next_oid := Suc (next_oid st1)\<rparr>) = Return v st3"
        and s: "st' = instances_set c (instanceKey a r) v st3"
        by (auto simp: bind_Return_iff new_object_def)
      from truthy_applyDecorators[OF d] s show ?thesis
        by (simp add: instances_set_def update_container_def)
    qed
  qed
qed

lemma singleton_cache_hit:
  assumes "scope r = Singleton"
    and "instances (heap st c) (instanceKey a r) = Some v" and "truthy v"
  shows "resolveRegistration (Suc n) c a r stk st = Return (v, stk) st"
  using assms by simp

lemma truthy_not_Undefined: "truthy v \<Longrightarrow> v \<noteq> Undefined"
  by auto

lemma winning_provider:
  assumes "\<not> multiple opts" and "token a \<notin> stk"
    and "composites (heap st c) (token a) = None"
    and "get_or_empty (instanceRegistrations (heap st c)) (token a) = []"
    and "get_or_empty (registrations (heap st c)) (token a) = previous @ [r]"
  shows "resolveInternal (Suc (Suc n)) c (Abstr a) stk opts st =
     bind (resolveRegistration n c a r stk st) (\<lambda>r' st1.
       if fst r' \<noteq> Undefined then Return r' st1
       else
         (case parent (heap st1 c) of
            Some p \<Rightarrow> resolveInternal (Suc n) p (Abstr a) (snd r') opts st1
          | None \<Rightarrow>
              if optional opts then Return (Undefined, snd r') st1
              else Throw (NoRegistrationFound (toString a)) st1))"
  using assms by simp

lemma through_descendants:
  assumes "descends st d between c" and "\<forall>k \<in> set between. unregistered (heap st k) a"
    and "\<not> multiple opts" and "token a \<notin> stk"
  shows "resolveInternal (length between + Suc n) d (Abstr a) stk opts st =
         resolveInternal (Suc n) c (Abstr a) stk opts st"
  using assms(1,2)
proof (induction between arbitrary: d)
  case Nil
  then show ?case by simp
next
  case (Cons k ks)
  from Cons.prems obtain p where d: "d = k" and p: "parent (heap st k) = Some p"
    and rest: "descends st p ks c" and u: "unregistered (heap st k) a"
    and us: "\<forall>k \<in> set ks. unregistered (heap st k) a"
    by (auto split: option.splits)
  have f: "length (k # ks) + Suc n = Suc (Suc (length ks + n))" by simp
  have g: "Suc (length ks + n) = length ks + Suc n" by simp
  have "resolveInternal (Suc (Suc (length ks + n))) k (Abstr a) stk opts st =
        resolveInternal (Suc (length ks + n)) p (Abstr a) stk opts st"
    unfolding no_local_match[OF assms(3,4) u] by (simp only: p option.case)
  also have "\<dots> = resolveInternal (Suc n) c (Abstr a) stk opts st"
    unfolding g by (rule Cons.IH[OF rest us])
  finally show ?case unfolding d f .
qed

lemma returns_through_descendants:
  assumes "descends st d between c" and "\<forall>k \<in> set between. unregistered (heap st k) a"
    and "\<not> multiple opts" and "token a \<notin> stk"
    and "resolveInternal n d (Abstr a) stk opts st = Return r st'"
  shows "\<exists>m. resolveInternal (Suc m) c (Abstr a) stk opts st = Return r st'"
  using assms(1,2,5)
proof (induction between arbitrary: d n)
  case Nil
  from Nil(3) obtain m where n: "n = Suc m" by (cases n) auto
  from Nil(1) have d: "d = c" by simp
  from Nil(3) have "resolveInternal (Suc m) c (Abstr a) stk opts st = Return r st'"
    unfolding n d .
  then show ?case by (rule exI)
next
  case (Cons k ks)
  from Cons.prems obtain p where d: "d = k" and p: "parent (heap st k) = Some p"
    and rest: "descends st p ks c" and u: "unregistered (heap st k) a"
    and us: "\<forall>k \<in> set ks. unregistered (heap st k) a"
    by (auto split: option.splits)
  from Cons.prems(3) assms(3,4) obtain m where n: "n = Suc (Suc m)"
    by (cases n; cases "n - 1") auto
  from Cons.prems(3) have "resolveInternal (Suc m) p (Abstr a) stk opts st = Return r st'"
    unfolding n d no_local_match[OF assms(3,4) u] by (simp only: p option.case)
  from Cons.IH[OF rest us this] show ?case .
qed


lemma unregistered_static:
  assumes "static st' = static st"
  shows "unregistered (heap st' k) a = unregistered (heap st k) a"
  by (simp add: unregistered_def static_fields(1,3,4,5)[OF assms])

lemma descends_static:
  assumes "static st' = static st"
  shows "descends st' d between c = descends st d between c"
  by (induction between arbitrary: d)
     (simp_all add: static_fields(6)[OF assms] split: option.splits)

lemma resolve_Return_iff:
  "resolve n c a st = Return v st' \<longleftrightarrow>
     (\<exists>stk. resolveInternal n c (Abstr a) {} no_options st = Return (v, stk) st')"
  by (auto simp: resolve_def bind_Return_iff)



lemma returned_Some:
  assumes "returned x = Some v"
  shows "x = Return v (state_of x)"
  using assms by (cases x) simp_all



section \<open>The singleton cache key\<close>

text \<open>
  Claim C3 says that singleton cache entries are keyed by the identity of the contract's
  token and the provider class name, so that two distinct contracts never share an entry.
  The code builds the key from \<open>token.toString()\<close>, which holds the label and not the
  identity. In \<open>same_label_world\<close> two distinct contracts labelled "Logger" have
  Singleton-scoped providers whose classes are both named "ConsoleLogger": the keys are
  equal, and resolving the second contract returns the instance cached for the first, an
  object of the first contract's class.
\<close>

theorem cache_key_ignores_identity:
  "token Logger \<noteq> token OtherLogger \<and>
   ConsoleLogger \<noteq> OtherConsoleLogger \<and>
   get_or_empty (registrations (heap same_label_world 0)) (token Logger) =
     [\<lparr>implementation = ConsoleLogger, dependencies = [], scope = Singleton\<rparr>] \<and>
   get_or_empty (registrations (heap same_label_world 0)) (token OtherLogger) =
     [\<lparr>implementation = OtherConsoleLogger, dependencies = [], scope = Singleton\<rparr>] \<and>
   instanceKey Logger
     \<lparr>implementation = ConsoleLogger, dependencies = [], scope = Singleton\<rparr> =
   instanceKey OtherLogger
     \<lparr>implementation = OtherConsoleLogger, dependencies = [], scope = Singleton\<rparr> \<and>
   returned (resolve 4 0 Logger same_label_world) = Some (Obj 0 ConsoleLogger []) \<and>
   returned (resolve 4 0 OtherLogger (state_of (resolve 4 0 Logger same_label_world))) =
     Some (Obj 0 ConsoleLogger [])"
  by (simp add: same_label_world_def example_defs numeral_nat Let_def)

end
